theory Spec2Isabelle
  imports Complex_Main "HOL-Library.Monad_Syntax"
begin

section \<open>The scene graph: a store of Object3D nodes and shared resources\<close>

text \<open>
  The entities of \<^verbatim>\<open>PrototypePattern.js\<close> (Wall, Furniture, Room, Layout3D) hold
  three.js objects and mutate them in place, and several claims are about which objects
  are shared and which are not. The three.js objects therefore live in an explicit store:
  a node reference is an index into the list \<open>objs\<close>, allocation appends to the list, and a
  reference is allocated exactly when it is below the length of the list. Geometries and
  materials live in a second store, \<open>resources\<close>, addressed by handles in the same way.
  JavaScript numbers are modelled as real numbers.
\<close>

type_synonym ref = nat
type_synonym handle = nat

datatype Vector3 = Vector3 (vx: real) (vy: real) (vz: real)

definition Vector3_sub :: "Vector3 \<Rightarrow> Vector3 \<Rightarrow> Vector3" where
  "Vector3_sub a b = Vector3 (vx a - vx b) (vy a - vy b) (vz a - vz b)"

definition multiplyScalar :: "Vector3 \<Rightarrow> real \<Rightarrow> Vector3" where
  "multiplyScalar a s = Vector3 (vx a * s) (vy a * s) (vz a * s)"

text \<open>The \<open>userData\<close> object of a node; a field that was never set is \<open>None\<close>.\<close>

record userData =
  entityId :: "string option"
  ud_type :: "string option"
  ud_name :: "string option"
  isMaster :: "bool option"

definition no_userData :: userData where
  "no_userData = \<lparr>entityId = None, ud_type = None, ud_name = None, isMaster = None\<rparr>"

datatype material = Single handle | Multi "handle list"

record Object3D =
  position :: Vector3
  rotation :: Vector3
  scale :: Vector3
  userData :: userData
  children :: "ref list"
  parent :: "ref option"
  isMesh :: bool
  geometry :: "handle option"
  material :: "material option"
  castShadow :: bool
  receiveShadow :: bool

datatype res_kind = BoxGeometry real real real | BufferGeometry "Vector3 list" | MeshStandardMaterial

record resource =
  res_kind :: res_kind
  res_disposed :: bool

text \<open>
  The world: both stores, the four static fields of the classes Wall and Furniture, and
  the random generator behind \<open>generateId\<close>, as the stream of the values it will return
  (\<open>rng\<close>) and the number of values drawn so far (\<open>draws\<close>).
\<close>

record world =
  objs :: "Object3D list"
  resources :: "resource list"
  Wall_geometry :: "handle option"
  Wall_material :: "handle option"
  Furniture_placeholderGeometry :: "handle option"
  Furniture_placeholderMaterial :: "handle option"
  rng :: "nat \<Rightarrow> string"
  draws :: nat

definition obj :: "world \<Rightarrow> ref \<Rightarrow> Object3D" where
  "obj w r = objs w ! r"

definition upd_obj :: "ref \<Rightarrow> (Object3D \<Rightarrow> Object3D) \<Rightarrow> world \<Rightarrow> world" where
  "upd_obj r f w = w\<lparr>objs := (objs w)[r := f (objs w ! r)]\<rparr>"

definition new_obj :: "Object3D \<Rightarrow> world \<Rightarrow> ref \<times> world" where
  "new_obj o3 w = (length (objs w), w\<lparr>objs := objs w @ [o3]\<rparr>)"

definition new_res :: "res_kind \<Rightarrow> world \<Rightarrow> handle \<times> world" where
  "new_res k w =
     (length (resources w), w\<lparr>resources := resources w @ [\<lparr>res_kind = k, res_disposed = False\<rparr>]\<rparr>)"

text \<open>\<^verbatim>\<open>geometry.dispose()\<close> and \<^verbatim>\<open>material.dispose()\<close>: the resource is marked as released.\<close>

definition dispose_res :: "handle \<Rightarrow> world \<Rightarrow> world" where
  "dispose_res h w = w\<lparr>resources := (resources w)[h := (resources w ! h)\<lparr>res_disposed := True\<rparr>]\<rparr>"

text \<open>\<^verbatim>\<open>new THREE.Group()\<close> and \<^verbatim>\<open>new THREE.Mesh(geometry, material)\<close>.\<close>

definition blank_Object3D :: Object3D where
  "blank_Object3D =
     \<lparr>position = Vector3 0 0 0, rotation = Vector3 0 0 0, scale = Vector3 1 1 1,
      userData = no_userData, children = [], parent = None, isMesh = False,
      geometry = None, material = None, castShadow = False, receiveShadow = False\<rparr>"

definition new_Group :: "world \<Rightarrow> ref \<times> world" where
  "new_Group w = new_obj blank_Object3D w"

definition new_Mesh :: "handle \<Rightarrow> handle \<Rightarrow> world \<Rightarrow> ref \<times> world" where
  "new_Mesh g m w =
     new_obj (blank_Object3D\<lparr>isMesh := True, geometry := Some g, material := Some (Single m)\<rparr>) w"

text \<open>
  \<^verbatim>\<open>Object3D.remove(object)\<close>: a no-op unless \<open>object\<close> is among the children; otherwise
  the object loses its parent and its first occurrence leaves the children.
  \<^verbatim>\<open>Object3D.add(object)\<close>: refuses to add a node to itself, detaches the object from its
  former parent, then appends it to the children.
\<close>

definition Object3D_remove :: "ref \<Rightarrow> ref \<Rightarrow> world \<Rightarrow> world" where
  "Object3D_remove p c w =
     (if c \<in> set (children (obj w p))
      then upd_obj p (\<lambda>o3. o3\<lparr>children := remove1 c (children o3)\<rparr>)
             (upd_obj c (\<lambda>o3. o3\<lparr>parent := None\<rparr>) w)
      else w)"

definition Object3D_add :: "ref \<Rightarrow> ref \<Rightarrow> world \<Rightarrow> world" where
  "Object3D_add p c w =
     (if c = p then w
      else let w1 = (case parent (obj w c) of None \<Rightarrow> w | Some q \<Rightarrow> Object3D_remove q c w);
               w2 = upd_obj c (\<lambda>o3. o3\<lparr>parent := Some p\<rparr>) w1
           in upd_obj p (\<lambda>o3. o3\<lparr>children := children o3 @ [c]\<rparr>) w2)"

text \<open>
  \<^verbatim>\<open>generateId()\<close> is \<^verbatim>\<open>Math.random().toString(36).substr(2, 9)\<close>: the next value of the
  random stream. Nothing in the code checks the value against the identifiers in use.
\<close>

definition generateId :: "world \<Rightarrow> string \<times> world" where
  "generateId w = (rng w (draws w), w\<lparr>draws := Suc (draws w)\<rparr>)"

section \<open>Wall\<close>

record Wall =
  wall_width :: real
  wall_height :: real
  wall_depth :: real
  wall_mesh :: ref

definition Wall_init_geometry :: "world \<Rightarrow> world" where
  "Wall_init_geometry w =
     (case Wall_geometry w of
        None \<Rightarrow> (let (g, w1) = new_res (BoxGeometry 1 1 1) w in w1\<lparr>Wall_geometry := Some g\<rparr>)
      | Some g \<Rightarrow> w)"

definition Wall_init_material :: "world \<Rightarrow> world" where
  "Wall_init_material w =
     (case Wall_material w of
        None \<Rightarrow> (let (m, w1) = new_res MeshStandardMaterial w in w1\<lparr>Wall_material := Some m\<rparr>)
      | Some m \<Rightarrow> w)"

definition Wall_new :: "real \<Rightarrow> real \<Rightarrow> real \<Rightarrow> world \<Rightarrow> Wall \<times> world" where
  "Wall_new width height depth w =
     (let w1 = Wall_init_geometry w;
          w2 = Wall_init_material w1;
          (m, w3) = new_Mesh (the (Wall_geometry w2)) (the (Wall_material w2)) w2;
          w4 = upd_obj m (\<lambda>o3. o3\<lparr>scale := Vector3 width height depth,
                                   castShadow := True, receiveShadow := True\<rparr>) w3;
          (i, w5) = generateId w4;
          w6 = upd_obj m (\<lambda>o3. o3\<lparr>userData :=
                 no_userData\<lparr>entityId := Some i, ud_type := Some ''Wall''\<rparr>\<rparr>) w5
      in (\<lparr>wall_width = width, wall_height = height, wall_depth = depth, wall_mesh = m\<rparr>, w6))"

definition Wall_setPosition :: "Wall \<Rightarrow> real \<Rightarrow> real \<Rightarrow> real \<Rightarrow> world \<Rightarrow> world" where
  "Wall_setPosition wl x y z w = upd_obj (wall_mesh wl) (\<lambda>o3. o3\<lparr>position := Vector3 x y z\<rparr>) w"

definition Wall_clone :: "Wall \<Rightarrow> world \<Rightarrow> Wall \<times> world" where
  "Wall_clone this w =
     (let (clonedWall, w1) = Wall_new (wall_width this) (wall_height this) (wall_depth this) w;
          src = obj w1 (wall_mesh this);
          w2 = upd_obj (wall_mesh clonedWall)
                 (\<lambda>o3. o3\<lparr>position := position src, rotation := rotation src\<rparr>) w1;
          (i, w3) = generateId w2;
          w4 = upd_obj (wall_mesh clonedWall)
                 (\<lambda>o3. o3\<lparr>userData := (userData o3)\<lparr>entityId := Some i\<rparr>\<rparr>) w3
      in (clonedWall, w4))"

text \<open>\<^verbatim>\<open>Wall.dispose()\<close> has an empty body: the geometry and the material are shared.\<close>

definition Wall_dispose :: "Wall \<Rightarrow> world \<Rightarrow> world" where
  "Wall_dispose this w = w"

section \<open>Furniture\<close>

record Furniture =
  furn_name :: "string option"
  furn_type :: "string option"
  furn_modelUrl :: "string option"
  furn_mesh :: ref
  furn_root :: ref

text \<open>JavaScript truthiness of a string-valued field: absent and the empty string are falsy.\<close>

definition truthy :: "string option \<Rightarrow> bool" where
  "truthy s = (case s of None \<Rightarrow> False | Some u \<Rightarrow> u \<noteq> [])"

definition Furniture_init_placeholderGeometry :: "world \<Rightarrow> world" where
  "Furniture_init_placeholderGeometry w =
     (case Furniture_placeholderGeometry w of
        None \<Rightarrow> (let (g, w1) = new_res (BoxGeometry 2 2 2) w
                 in w1\<lparr>Furniture_placeholderGeometry := Some g\<rparr>)
      | Some g \<Rightarrow> w)"

definition Furniture_init_placeholderMaterial :: "world \<Rightarrow> world" where
  "Furniture_init_placeholderMaterial w =
     (case Furniture_placeholderMaterial w of
        None \<Rightarrow> (let (m, w1) = new_res MeshStandardMaterial w
                 in w1\<lparr>Furniture_placeholderMaterial := Some m\<rparr>)
      | Some m \<Rightarrow> w)"

definition Furniture_new :: "string option \<Rightarrow> string option \<Rightarrow> string option \<Rightarrow> world \<Rightarrow> Furniture \<times> world" where
  "Furniture_new name type modelUrl w =
     (let w1 = Furniture_init_placeholderGeometry w;
          w2 = Furniture_init_placeholderMaterial w1;
          (m, w3) = new_Mesh (the (Furniture_placeholderGeometry w2))
                             (the (Furniture_placeholderMaterial w2)) w2;
          w4 = upd_obj m (\<lambda>o3. o3\<lparr>castShadow := True, receiveShadow := True\<rparr>) w3;
          (i, w5) = generateId w4;
          w6 = upd_obj m (\<lambda>o3. o3\<lparr>userData :=
                 \<lparr>entityId = Some i, ud_type = Some ''Furniture'', ud_name = name, isMaster = None\<rparr>\<rparr>) w5;
          (g, w7) = new_Group w6;
          w8 = Object3D_add g m w7;
          (j, w9) = generateId w8;
          w10 = upd_obj g (\<lambda>o3. o3\<lparr>userData :=
                 \<lparr>entityId = Some j, ud_type = Some ''Furniture'', ud_name = name, isMaster = None\<rparr>\<rparr>) w9
      in (\<lparr>furn_name = name, furn_type = type, furn_modelUrl = modelUrl,
           furn_mesh = m, furn_root = g\<rparr>, w10))"

definition Furniture_setPosition :: "Furniture \<Rightarrow> real \<Rightarrow> real \<Rightarrow> real \<Rightarrow> world \<Rightarrow> world" where
  "Furniture_setPosition this x y z w =
     upd_obj (furn_root this) (\<lambda>o3. o3\<lparr>position := Vector3 x y z\<rparr>) w"

definition Furniture_setScale :: "Furniture \<Rightarrow> real \<Rightarrow> real \<Rightarrow> real \<Rightarrow> world \<Rightarrow> world" where
  "Furniture_setScale this x y z w =
     upd_obj (furn_root this) (\<lambda>o3. o3\<lparr>scale := Vector3 x y z\<rparr>) w"

definition Furniture_setRotation :: "Furniture \<Rightarrow> real \<Rightarrow> real \<Rightarrow> real \<Rightarrow> world \<Rightarrow> world" where
  "Furniture_setRotation this x y z w =
     upd_obj (furn_root this) (\<lambda>o3. o3\<lparr>rotation := Vector3 x y z\<rparr>) w"

subsection \<open>The asset loader\<close>

text \<open>
  \<^verbatim>\<open>GLTFLoader.loadAsync(url)\<close> is outside the repository. It is a parameter of the model:
  a function from the URL to either a failure or the description of the scene, which is
  then built in the store as new nodes with new geometries and materials of their own.
  The scene itself is a Group with the identity transform; the nodes below it carry a
  position and a scale (rotations inside an asset are left out of the model), and a node
  with vertices is a Mesh.
\<close>

datatype error = AssetFetchError | NotFoundError | MalformedDescriptionError | TypeError

datatype gltf = GltfNode (g_position: Vector3) (g_scale: Vector3)
                         (g_vertices: "Vector3 list option") (g_children: "gltf list")

type_synonym GLTFLoader = "string \<Rightarrow> error + gltf list"

fun build_gltf :: "gltf \<Rightarrow> world \<Rightarrow> ref \<times> world"
  and build_gltf_children :: "ref \<Rightarrow> gltf list \<Rightarrow> world \<Rightarrow> world" where
  "build_gltf (GltfNode pos scl vs cs) w =
     (let (r, w1) = (case vs of
                       None \<Rightarrow> new_Group w
                     | Some pts \<Rightarrow>
                         (let (g, wa) = new_res (BufferGeometry pts) w;
                              (m, wb) = new_res MeshStandardMaterial wa
                          in new_Mesh g m wb));
          w2 = upd_obj r (\<lambda>o3. o3\<lparr>position := pos, scale := scl\<rparr>) w1
      in (r, build_gltf_children r cs w2))"
| "build_gltf_children p [] w = w"
| "build_gltf_children p (c # cs) w =
     (let (r, w1) = build_gltf c w in build_gltf_children p cs (Object3D_add p r w1))"

definition build_scene :: "gltf list \<Rightarrow> world \<Rightarrow> ref \<times> world" where
  "build_scene cs w = (let (r, w1) = new_Group w in (r, build_gltf_children r cs w1))"

subsection \<open>Walking the scene graph\<close>

text \<open>
  \<^verbatim>\<open>Object3D.traverse(callback)\<close> visits a node, then its children in order, recursively.
  The recursion follows references in the store, so it is a partial function: on a cyclic
  store it does not return. \<open>descendants\<close> lists the nodes in the order of the visit; the
  callbacks of this program change no \<open>children\<close> field, so running the callback over that
  list is the traversal.
\<close>

partial_function (option) descendants :: "ref list \<Rightarrow> world \<Rightarrow> ref list option" where
  "descendants rs w =
     (case rs of
        [] \<Rightarrow> Some []
      | r # rest \<Rightarrow>
          (if r < length (objs w)
           then do { ds \<leftarrow> descendants (children (obj w r)) w;
                     es \<leftarrow> descendants rest w;
                     Some (r # ds @ es) }
           else None))"

definition traverse :: "(ref \<Rightarrow> world \<Rightarrow> world) \<Rightarrow> ref \<Rightarrow> world \<Rightarrow> world option" where
  "traverse callback r w = do { ds \<leftarrow> descendants [r] w; Some (fold callback ds w) }"

text \<open>
  \<^verbatim>\<open>new THREE.Box3().setFromObject(model)\<close>: the axis-aligned box around the vertices of
  every mesh below \<open>model\<close>, each moved by the world transform of its node. Without
  rotations a world transform is a scale \<open>k\<close> followed by a translation \<open>t\<close>. An empty box
  has size and centre \<open>(0, 0, 0)\<close>, as \<^verbatim>\<open>getSize\<close> and \<^verbatim>\<open>getCenter\<close> return for it.
\<close>

definition geometry_vertices :: "res_kind \<Rightarrow> Vector3 list" where
  "geometry_vertices k =
     (case k of
        BoxGeometry a b c \<Rightarrow>
          [Vector3 x y z. x \<leftarrow> [- a / 2, a / 2], y \<leftarrow> [- b / 2, b / 2], z \<leftarrow> [- c / 2, c / 2]]
      | BufferGeometry pts \<Rightarrow> pts
      | MeshStandardMaterial \<Rightarrow> [])"

definition apply_transform :: "Vector3 \<Rightarrow> Vector3 \<Rightarrow> Vector3 \<Rightarrow> Vector3" where
  "apply_transform t k p = Vector3 (vx t + vx k * vx p) (vy t + vy k * vy p) (vz t + vz k * vz p)"

definition own_vertices :: "world \<Rightarrow> ref \<Rightarrow> Vector3 list" where
  "own_vertices w r =
     (case geometry (obj w r) of
        None \<Rightarrow> []
      | Some g \<Rightarrow> geometry_vertices (res_kind (resources w ! g)))"

partial_function (option) world_vertices :: "Vector3 \<Rightarrow> Vector3 \<Rightarrow> ref list \<Rightarrow> world \<Rightarrow> Vector3 list option" where
  "world_vertices t k rs w =
     (case rs of
        [] \<Rightarrow> Some []
      | r # rest \<Rightarrow>
          (if r < length (objs w)
           then (let t1 = apply_transform t k (position (obj w r));
                     k1 = Vector3 (vx k * vx (scale (obj w r))) (vy k * vy (scale (obj w r)))
                                  (vz k * vz (scale (obj w r)))
                 in do { ps \<leftarrow> world_vertices t1 k1 (children (obj w r)) w;
                         qs \<leftarrow> world_vertices t k rest w;
                         Some (map (apply_transform t1 k1) (own_vertices w r) @ ps @ qs) })
           else None))"

datatype Box3 = EmptyBox | Box3 (box_min: Vector3) (box_max: Vector3)

fun expandByPoint :: "Vector3 \<Rightarrow> Box3 \<Rightarrow> Box3" where
  "expandByPoint p EmptyBox = Box3 p p"
| "expandByPoint p (Box3 lo hi) =
     Box3 (Vector3 (min (vx lo) (vx p)) (min (vy lo) (vy p)) (min (vz lo) (vz p)))
          (Vector3 (max (vx hi) (vx p)) (max (vy hi) (vy p)) (max (vz hi) (vz p)))"

definition Box3_setFromObject :: "ref \<Rightarrow> world \<Rightarrow> Box3 option" where
  "Box3_setFromObject r w =
     do { ps \<leftarrow> world_vertices (Vector3 0 0 0) (Vector3 1 1 1) [r] w;
          Some (fold expandByPoint ps EmptyBox) }"

fun getSize :: "Box3 \<Rightarrow> Vector3" where
  "getSize EmptyBox = Vector3 0 0 0"
| "getSize (Box3 lo hi) = Vector3_sub hi lo"

fun getCenter :: "Box3 \<Rightarrow> Vector3" where
  "getCenter EmptyBox = Vector3 0 0 0"
| "getCenter (Box3 lo hi) =
     Vector3 ((vx lo + vx hi) / 2) ((vy lo + vy hi) / 2) ((vz lo + vz hi) / 2)"

subsection \<open>Loading and normalising the model\<close>

text \<open>
  \<^verbatim>\<open>Furniture.loadModel(loader)\<close>. The whole body after the URL test is inside
  \<^verbatim>\<open>try { ... } catch (err) { console.error(...) }\<close>, so a failed fetch leaves the
  Furniture as it is and the promise still fulfils. The result is \<open>None\<close> only when a
  walk over the scene graph does not return.
\<close>

definition enable_shadows :: "ref \<Rightarrow> world \<Rightarrow> world" where
  "enable_shadows r w =
     (if isMesh (obj w r) then upd_obj r (\<lambda>o3. o3\<lparr>castShadow := True, receiveShadow := True\<rparr>) w
      else w)"

definition Furniture_loadModel :: "GLTFLoader \<Rightarrow> Furniture \<Rightarrow> world \<Rightarrow> (Furniture \<times> world) option" where
  "Furniture_loadModel loader this w =
     (if \<not> truthy (furn_modelUrl this) then Some (this, w)
      else case loader (the (furn_modelUrl this)) of
             Inl err \<Rightarrow> Some (this, w)
           | Inr gltf \<Rightarrow>
               (let (model, w1) = build_scene gltf w
                in do { w2 \<leftarrow> traverse enable_shadows model w1;
                        box \<leftarrow> Box3_setFromObject model w2;
                        let size = getSize box;
                            center = getCenter box;
                            w3 = upd_obj model (\<lambda>o3. o3\<lparr>position := Vector3_sub (position o3) center\<rparr>) w2;
                            maxDim = max (max (vx size) (vy size)) (vz size);
                            w4 = (if maxDim > 0
                                  then (let scaleFactor = 1 / maxDim
                                        in upd_obj model (\<lambda>o3. o3\<lparr>scale := multiplyScalar (scale o3) scaleFactor\<rparr>) w3)
                                  else w3);
                            w5 = Object3D_remove (furn_root this) (furn_mesh this) w4;
                            w6 = Object3D_add (furn_root this) model w5
                        in Some (this\<lparr>furn_mesh := model\<rparr>, w6) }))"

subsection \<open>Hydration from a description\<close>

text \<open>
  A description is a value parsed from JSON. The three \<^verbatim>\<open>fromJSON\<close> functions contain no
  \<^verbatim>\<open>throw\<close> and no test of a required field; what can fail in them is JavaScript itself,
  with a \<^verbatim>\<open>TypeError\<close>: reading a property of \<^verbatim>\<open>null\<close>, and calling \<^verbatim>\<open>forEach\<close> on a
  value that has none. The descriptions of the model reach each of these paths:

    \<^item> the argument of \<^verbatim>\<open>fromJSON\<close>, and every entry of a list, is \<^verbatim>\<open>null\<close> (\<open>None\<close>) or an
      object with its fields. A value that is neither \<^verbatim>\<open>null\<close> nor an object (a number, a
      string, a boolean, an array) has none of the fields read here, so it is hydrated as
      the object without fields is, and is not represented apart;

    \<^item> a field holding a list (\<^verbatim>\<open>rooms\<close>, \<^verbatim>\<open>furniture\<close>) is any JSON value, up to what the
      code can tell: missing, \<^verbatim>\<open>null\<close>, a boolean, a number, a string, an object, or an
      array;

    \<^item> a scalar field (a name, a type, a URL, an identifier, a width, a depth) is missing
      (\<open>None\<close>) or holds a value of its type, and \<^verbatim>\<open>position\<close>, \<^verbatim>\<open>rotation\<close>, \<^verbatim>\<open>scale\<close>
      and \<^verbatim>\<open>cameraView\<close> are missing or falsy (\<open>None\<close>) or hold an object of numbers.
      Scalar fields holding a value of another type (a width that is \<^verbatim>\<open>null\<close> or a string,
      a name that is a number) are stored by the code as they come; the entities of the
      model have no place for such values, and descriptions with them are left out.

  A failure carries the world in which it happened: what was built before the exception
  stays built.
\<close>

datatype json_scalar = JBool bool | JNum real | JStr string

datatype 'a list_field =
  NoField | NullField | ScalarField json_scalar | ObjectField | ArrayField "'a list"

text \<open>JavaScript truthiness of such a field; an array is truthy, also when it is empty.\<close>

fun truthy_field :: "'a list_field \<Rightarrow> bool" where
  "truthy_field NoField = False"
| "truthy_field NullField = False"
| "truthy_field (ScalarField (JBool b)) = b"
| "truthy_field (ScalarField (JNum x)) = (x \<noteq> 0)"
| "truthy_field (ScalarField (JStr u)) = (u \<noteq> [])"
| "truthy_field ObjectField = True"
| "truthy_field (ArrayField xs) = True"

record furniture_desc =
  fd_name :: "string option"
  fd_type :: "string option"
  fd_modelUrl :: "string option"
  fd_position :: "Vector3 option"
  fd_rotation :: "Vector3 option"
  fd_scale :: "Vector3 option"

definition Furniture_fromJSON ::
  "furniture_desc option \<Rightarrow> world \<Rightarrow> error \<times> world + Furniture \<times> world" where
  "Furniture_fromJSON data w =
     (case data of
        None \<Rightarrow> Inl (TypeError, w)
      | Some d \<Rightarrow>
          (let (furniture, w1) = Furniture_new (fd_name d) (fd_type d) (fd_modelUrl d) w;
               w2 = (case fd_position d of None \<Rightarrow> w1
                     | Some v \<Rightarrow> Furniture_setPosition furniture (vx v) (vy v) (vz v) w1);
               w3 = (case fd_rotation d of None \<Rightarrow> w2
                     | Some v \<Rightarrow> Furniture_setRotation furniture (vx v) (vy v) (vz v) w2);
               w4 = (case fd_scale d of None \<Rightarrow> w3
                     | Some v \<Rightarrow> Furniture_setScale furniture (vx v) (vy v) (vz v) w3)
           in Inr (furniture, w4)))"

subsection \<open>Cloning\<close>

text \<open>
  \<^verbatim>\<open>SkeletonUtils.clone(source)\<close> is \<^verbatim>\<open>source.clone()\<close> followed by the rebinding of
  skeletons, which the model does not have. \<^verbatim>\<open>Object3D.clone()\<close> makes a new node, copies
  the transform, the flags and a deep copy of \<open>userData\<close> into it, shares the geometry and
  the material, and adds a clone of every child. \<open>clone_into p rs\<close> clones the nodes \<open>rs\<close>
  in order and adds each clone to the node \<open>p\<close>, if there is one. The rotation is copied
  as the triple of angles the source holds; three.js copies the quaternion and computes
  the angles of the clone from it, so the triple of a clone may differ from its source's
  while the rotation is the same. No property below reads the rotation of a clone.
\<close>

partial_function (option) clone_into :: "ref option \<Rightarrow> ref list \<Rightarrow> world \<Rightarrow> (ref list \<times> world) option" where
  "clone_into p rs w =
     (case rs of
        [] \<Rightarrow> Some ([], w)
      | r # rest \<Rightarrow>
          (if r < length (objs w)
           then (let source = obj w r;
                     (c, w1) = new_obj (source\<lparr>children := [], parent := None\<rparr>) w
                 in do { (ks, w2) \<leftarrow> clone_into (Some c) (children source) w1;
                         let w3 = (case p of None \<Rightarrow> w2 | Some q \<Rightarrow> Object3D_add q c w2);
                         (cs, w4) \<leftarrow> clone_into p rest w3;
                         Some (c # cs, w4) })
           else None))"

definition SkeletonUtils_clone :: "ref \<Rightarrow> world \<Rightarrow> (ref \<times> world) option" where
  "SkeletonUtils_clone source w =
     do { (cs, w1) \<leftarrow> clone_into None [source] w;
          case cs of [c] \<Rightarrow> Some (c, w1) | _ \<Rightarrow> None }"

definition Furniture_clone :: "Furniture \<Rightarrow> world \<Rightarrow> (Furniture \<times> world) option" where
  "Furniture_clone this w =
     (let (clonedFurniture, w1) = Furniture_new (furn_name this) (furn_type this) (furn_modelUrl this) w
      in do { (clonedRoot, w2) \<leftarrow> SkeletonUtils_clone (furn_root this) w1;
              let (i, w3) = generateId w2;
                  w4 = upd_obj clonedRoot (\<lambda>o3. o3\<lparr>userData := (userData o3)
                         \<lparr>entityId := Some i, ud_type := Some ''Furniture'', ud_name := furn_name this\<rparr>\<rparr>) w3
              in Some (clonedFurniture\<lparr>furn_root := clonedRoot\<rparr>, w4) })"

subsection \<open>Releasing resources\<close>

text \<open>
  \<^verbatim>\<open>Furniture.dispose()\<close> tests \<^verbatim>\<open>this.mesh && this.mesh !== Furniture.placeholderGeometry
  && this.modelUrl\<close>. The middle test compares a mesh node with a geometry; \<open>js_object\<close>
  keeps the two kinds of object apart, as object identity does.
\<close>

datatype js_object = Node ref | Resource handle | Null

definition static_object :: "handle option \<Rightarrow> js_object" where
  "static_object h = (case h of None \<Rightarrow> Null | Some g \<Rightarrow> Resource g)"

definition dispose_node :: "ref \<Rightarrow> world \<Rightarrow> world" where
  "dispose_node r w =
     (if isMesh (obj w r)
      then (let w1 = (case geometry (obj w r) of None \<Rightarrow> w | Some g \<Rightarrow> dispose_res g w)
            in case material (obj w r) of
                 None \<Rightarrow> w1
               | Some (Multi ms) \<Rightarrow> fold dispose_res ms w1
               | Some (Single m) \<Rightarrow> dispose_res m w1)
      else w)"

definition Furniture_dispose :: "Furniture \<Rightarrow> world \<Rightarrow> world option" where
  "Furniture_dispose this w =
     (if Node (furn_mesh this) \<noteq> static_object (Furniture_placeholderGeometry w)
         \<and> truthy (furn_modelUrl this)
      then traverse dispose_node (furn_mesh this) w
      else Some w)"

section \<open>Room\<close>

record Room =
  room_name :: "string option"
  room_width :: real
  room_depth :: real
  room_furnitureList :: "Furniture list"
  room_walls :: "Wall list"
  room_group :: ref

definition Room_addWall :: "Room \<Rightarrow> Wall \<Rightarrow> world \<Rightarrow> Room \<times> world" where
  "Room_addWall this wall w =
     (this\<lparr>room_walls := room_walls this @ [wall]\<rparr>,
      Object3D_add (room_group this) (wall_mesh wall) w)"

definition Room_addFurniture :: "Room \<Rightarrow> Furniture \<Rightarrow> world \<Rightarrow> Room \<times> world" where
  "Room_addFurniture this furniture w =
     (this\<lparr>room_furnitureList := room_furnitureList this @ [furniture]\<rparr>,
      Object3D_add (room_group this) (furn_root furniture) w)"

definition Room_generateWalls :: "Room \<Rightarrow> world \<Rightarrow> Room \<times> world" where
  "Room_generateWalls this w =
     (let h = 3.5;
          t = 0.5;
          w0 = fold (\<lambda>wl. Object3D_remove (room_group this) (wall_mesh wl)) (room_walls this) w;
          this0 = this\<lparr>room_walls := []\<rparr>;
          (back, w1) = Wall_new (room_width this) h t w0;
          w2 = Wall_setPosition back 0 (h / 2) (- room_depth this / 2) w1;
          (this1, w3) = Room_addWall this0 back w2;
          (front, w4) = Wall_new (room_width this) h t w3;
          w5 = Wall_setPosition front 0 (h / 2) (room_depth this / 2) w4;
          (this2, w6) = Room_addWall this1 front w5;
          (left, w7) = Wall_new t h (room_depth this) w6;
          w8 = Wall_setPosition left (- room_width this / 2) (h / 2) 0 w7;
          (this3, w9) = Room_addWall this2 left w8;
          (right, w10) = Wall_new t h (room_depth this) w9;
          w11 = Wall_setPosition right (room_width this / 2) (h / 2) 0 w10
      in Room_addWall this3 right w11)"

text \<open>The constructor \<^verbatim>\<open>Room(name, width = 20, depth = 20)\<close>: an absent size is 20.\<close>

definition Room_new :: "string option \<Rightarrow> real option \<Rightarrow> real option \<Rightarrow> world \<Rightarrow> Room \<times> world" where
  "Room_new name width depth w =
     (let (g, w1) = new_Group w;
          (i, w2) = generateId w1;
          w3 = upd_obj g (\<lambda>o3. o3\<lparr>userData :=
                 \<lparr>entityId = Some i, ud_type = Some ''Room'', ud_name = name, isMaster = None\<rparr>\<rparr>) w2
      in Room_generateWalls
           \<lparr>room_name = name,
            room_width = (case width of None \<Rightarrow> 20 | Some x \<Rightarrow> x),
            room_depth = (case depth of None \<Rightarrow> 20 | Some x \<Rightarrow> x),
            room_furnitureList = [], room_walls = [], room_group = g\<rparr> w3)"

record room_desc =
  rd_name :: "string option"
  rd_width :: "real option"
  rd_depth :: "real option"
  rd_furniture :: "furniture_desc option list_field"

fun Room_fromJSON_items ::
  "furniture_desc option list \<Rightarrow> Room \<Rightarrow> world \<Rightarrow> error \<times> world + Room \<times> world" where
  "Room_fromJSON_items [] room w = Inr (room, w)"
| "Room_fromJSON_items (itemData # items) room w =
     (case Furniture_fromJSON itemData w of
        Inl err \<Rightarrow> Inl err
      | Inr (furniture, w1) \<Rightarrow>
          (let (room1, w2) = Room_addFurniture room furniture w1
           in Room_fromJSON_items items room1 w2))"

text \<open>
  \<^verbatim>\<open>if (data.furniture) data.furniture.forEach(...)\<close>: a falsy field is skipped, an array
  is walked, and on any other value \<^verbatim>\<open>forEach\<close> is not a function.
\<close>

definition Room_fromJSON :: "room_desc option \<Rightarrow> world \<Rightarrow> error \<times> world + Room \<times> world" where
  "Room_fromJSON data w =
     (case data of
        None \<Rightarrow> Inl (TypeError, w)
      | Some d \<Rightarrow>
          (let (room, w1) = Room_new (rd_name d) (rd_width d) (rd_depth d) w
           in if truthy_field (rd_furniture d)
              then (case rd_furniture d of
                      ArrayField items \<Rightarrow> Room_fromJSON_items items room w1
                    | _ \<Rightarrow> Inl (TypeError, w1))
              else Inr (room, w1)))"

fun Room_clone_items :: "Furniture list \<Rightarrow> Room \<Rightarrow> world \<Rightarrow> (Room \<times> world) option" where
  "Room_clone_items [] clonedRoom w = Some (clonedRoom, w)"
| "Room_clone_items (item # items) clonedRoom w =
     do { (clonedItem, w1) \<leftarrow> Furniture_clone item w;
          let (clonedRoom1, w2) = Room_addFurniture clonedRoom clonedItem w1
          in Room_clone_items items clonedRoom1 w2 }"

definition Room_clone :: "Room \<Rightarrow> world \<Rightarrow> (Room \<times> world) option" where
  "Room_clone this w =
     (let (clonedRoom, w1) = Room_new (room_name this) (Some (room_width this)) (Some (room_depth this)) w
      in do { (clonedRoom1, w2) \<leftarrow> Room_clone_items (room_furnitureList this) clonedRoom w1;
              let w3 = upd_obj (room_group clonedRoom1)
                         (\<lambda>o3. o3\<lparr>position := position (obj w2 (room_group this))\<rparr>) w2;
                  (i, w4) = generateId w3;
                  w5 = upd_obj (room_group clonedRoom1)
                         (\<lambda>o3. o3\<lparr>userData := (userData o3)\<lparr>entityId := Some i\<rparr>\<rparr>) w4
              in Some (clonedRoom1, w5) })"

fun Room_dispose_items :: "Furniture list \<Rightarrow> world \<Rightarrow> world option" where
  "Room_dispose_items [] w = Some w"
| "Room_dispose_items (f # fs) w = do { w1 \<leftarrow> Furniture_dispose f w; Room_dispose_items fs w1 }"

definition Room_dispose :: "Room \<Rightarrow> world \<Rightarrow> world option" where
  "Room_dispose this w =
     Room_dispose_items (room_furnitureList this) (fold Wall_dispose (room_walls this) w)"

section \<open>Layout3D\<close>

record cameraView =
  cam_position :: Vector3
  cam_target :: Vector3

record Layout3D =
  lay_id :: "string option"
  lay_description :: "string option"
  lay_rooms :: "Room list"
  lay_cameraView :: "cameraView option"
  lay_group :: ref

definition Layout3D_new :: "string option \<Rightarrow> string option \<Rightarrow> world \<Rightarrow> Layout3D \<times> world" where
  "Layout3D_new ident description w =
     (let (g, w1) = new_Group w;
          w2 = upd_obj g (\<lambda>o3. o3\<lparr>userData :=
                 \<lparr>entityId = ident, ud_type = Some ''Layout3D'', ud_name = None, isMaster = Some True\<rparr>\<rparr>) w1
      in (\<lparr>lay_id = ident, lay_description = description, lay_rooms = [],
           lay_cameraView = None, lay_group = g\<rparr>, w2))"

definition Layout3D_addRoom :: "Layout3D \<Rightarrow> Room \<Rightarrow> world \<Rightarrow> Layout3D \<times> world" where
  "Layout3D_addRoom this room w =
     (this\<lparr>lay_rooms := lay_rooms this @ [room]\<rparr>,
      Object3D_add (lay_group this) (room_group room) w)"

text \<open>
  \<^verbatim>\<open>Layout3D.loadAssets()\<close> starts one \<^verbatim>\<open>loadModel\<close> per Furniture and awaits
  \<^verbatim>\<open>Promise.all\<close> of them. No \<^verbatim>\<open>loadModel\<close> promise rejects, and each one touches only
  its own Furniture and nodes it has created, so the model runs them one after the other,
  in the order in which they were started; the world returned is the one in which every
  attempt has ended.
\<close>

fun loadModels :: "GLTFLoader \<Rightarrow> Furniture list \<Rightarrow> world \<Rightarrow> (Furniture list \<times> world) option" where
  "loadModels loader [] w = Some ([], w)"
| "loadModels loader (furniture # fs) w =
     do { (furniture1, w1) \<leftarrow> Furniture_loadModel loader furniture w;
          (fs1, w2) \<leftarrow> loadModels loader fs w1;
          Some (furniture1 # fs1, w2) }"

fun loadAssets_rooms :: "GLTFLoader \<Rightarrow> Room list \<Rightarrow> world \<Rightarrow> (Room list \<times> world) option" where
  "loadAssets_rooms loader [] w = Some ([], w)"
| "loadAssets_rooms loader (room # rooms) w =
     do { (fs, w1) \<leftarrow> loadModels loader (room_furnitureList room) w;
          (rooms1, w2) \<leftarrow> loadAssets_rooms loader rooms w1;
          Some (room\<lparr>room_furnitureList := fs\<rparr> # rooms1, w2) }"

definition Layout3D_loadAssets :: "GLTFLoader \<Rightarrow> Layout3D \<Rightarrow> world \<Rightarrow> (Layout3D \<times> world) option" where
  "Layout3D_loadAssets loader this w =
     do { (rooms, w1) \<leftarrow> loadAssets_rooms loader (lay_rooms this) w;
          Some (this\<lparr>lay_rooms := rooms\<rparr>, w1) }"

record layout_desc =
  ld_id :: "string option"
  ld_name :: "string option"
  ld_cameraView :: "cameraView option"
  ld_rooms :: "room_desc option list_field"

fun Layout3D_fromJSON_rooms ::
  "room_desc option list \<Rightarrow> Layout3D \<Rightarrow> world \<Rightarrow> error \<times> world + Layout3D \<times> world" where
  "Layout3D_fromJSON_rooms [] layout w = Inr (layout, w)"
| "Layout3D_fromJSON_rooms (roomData # rooms) layout w =
     (case Room_fromJSON roomData w of
        Inl err \<Rightarrow> Inl err
      | Inr (room, w1) \<Rightarrow>
          (let (layout1, w2) = Layout3D_addRoom layout room w1
           in Layout3D_fromJSON_rooms rooms layout1 w2))"

definition Layout3D_fromJSON ::
  "layout_desc option \<Rightarrow> world \<Rightarrow> error \<times> world + Layout3D \<times> world" where
  "Layout3D_fromJSON data w =
     (case data of
        None \<Rightarrow> Inl (TypeError, w)
      | Some d \<Rightarrow>
          (let (layout, w1) = Layout3D_new (ld_id d) (ld_name d) w;
               layout1 = (case ld_cameraView d of
                            None \<Rightarrow> layout
                          | Some cv \<Rightarrow> layout\<lparr>lay_cameraView := Some cv\<rparr>)
           in if truthy_field (ld_rooms d)
              then (case ld_rooms d of
                      ArrayField rooms \<Rightarrow> Layout3D_fromJSON_rooms rooms layout1 w1
                    | _ \<Rightarrow> Inl (TypeError, w1))
              else Inr (layout1, w1)))"

fun Layout3D_clone_rooms :: "Room list \<Rightarrow> Layout3D \<Rightarrow> world \<Rightarrow> (Layout3D \<times> world) option" where
  "Layout3D_clone_rooms [] clonedLayout w = Some (clonedLayout, w)"
| "Layout3D_clone_rooms (room # rooms) clonedLayout w =
     do { (clonedRoom, w1) \<leftarrow> Room_clone room w;
          let (clonedLayout1, w2) = Layout3D_addRoom clonedLayout clonedRoom w1
          in Layout3D_clone_rooms rooms clonedLayout1 w2 }"

definition Layout3D_clone :: "Layout3D \<Rightarrow> world \<Rightarrow> (Layout3D \<times> world) option" where
  "Layout3D_clone this w =
     (let (clonedLayout, w1) = Layout3D_new (lay_id this) (lay_description this) w;
          clonedLayout1 = (case lay_cameraView this of
                             None \<Rightarrow> clonedLayout
                           | Some cv \<Rightarrow> clonedLayout\<lparr>lay_cameraView := Some cv\<rparr>)
      in do { (clonedLayout2, w2) \<leftarrow> Layout3D_clone_rooms (lay_rooms this) clonedLayout1 w1;
              let w3 = upd_obj (lay_group clonedLayout2)
                         (\<lambda>o3. o3\<lparr>userData := (userData o3)\<lparr>isMaster := Some False\<rparr>\<rparr>) w2
              in Some (clonedLayout2, w3) })"

fun Layout3D_dispose_rooms :: "Room list \<Rightarrow> world \<Rightarrow> world option" where
  "Layout3D_dispose_rooms [] w = Some w"
| "Layout3D_dispose_rooms (r # rs) w = do { w1 \<leftarrow> Room_dispose r w; Layout3D_dispose_rooms rs w1 }"

definition Layout3D_dispose :: "Layout3D \<Rightarrow> world \<Rightarrow> world option" where
  "Layout3D_dispose this w = Layout3D_dispose_rooms (lay_rooms this) w"

section \<open>LayoutRegistry\<close>

text \<open>
  The registry maps an identifier to its master. Entities are values of the model; the
  nodes they refer to are in the store, so a master and its clones can only influence each
  other through the store.
\<close>

type_synonym LayoutRegistry = "string \<Rightarrow> Layout3D option"

definition registerMaster :: "string \<Rightarrow> Layout3D \<Rightarrow> LayoutRegistry \<Rightarrow> LayoutRegistry" where
  "registerMaster ident layout masters = masters(ident \<mapsto> layout)"

definition getSessionClone :: "LayoutRegistry \<Rightarrow> string \<Rightarrow> world \<Rightarrow> (error + Layout3D \<times> world) option" where
  "getSessionClone masters ident w =
     (case masters ident of
        None \<Rightarrow> Some (Inl NotFoundError)
      | Some master \<Rightarrow> map_option Inr (Layout3D_clone master w))"

section \<open>Vocabulary of the properties\<close>

text \<open>
  \<open>subtrees_ok n os rs\<close>: the nodes \<open>rs\<close> and everything below them lie among the first \<open>n\<close>
  nodes of the store \<open>os\<close> and form finite trees; every scene graph that the program builds
  is of this kind. A layout is well formed in a world when the root of each of its
  Furniture is such a tree of allocated nodes.
\<close>

inductive subtrees_ok :: "nat \<Rightarrow> Object3D list \<Rightarrow> ref list \<Rightarrow> bool" for n os where
  Nil: "subtrees_ok n os []"
| Cons: "r < n \<Longrightarrow> subtrees_ok n os (children (os ! r)) \<Longrightarrow> subtrees_ok n os rest
         \<Longrightarrow> subtrees_ok n os (r # rest)"

definition Furniture_ok :: "world \<Rightarrow> Furniture \<Rightarrow> bool" where
  "Furniture_ok w f \<longleftrightarrow> subtrees_ok (length (objs w)) (objs w) [furn_root f]"

definition Room_ok :: "world \<Rightarrow> Room \<Rightarrow> bool" where
  "Room_ok w r \<longleftrightarrow> list_all (Furniture_ok w) (room_furnitureList r)"

definition Layout_ok :: "world \<Rightarrow> Layout3D \<Rightarrow> bool" where
  "Layout_ok w L \<longleftrightarrow> list_all (Room_ok w) (lay_rooms L)"

definition all_furniture :: "Layout3D \<Rightarrow> Furniture list" where
  "all_furniture L = concat (map room_furnitureList (lay_rooms L))"

definition all_walls :: "Layout3D \<Rightarrow> Wall list" where
  "all_walls L = concat (map room_walls (lay_rooms L))"

definition transform :: "world \<Rightarrow> ref \<Rightarrow> Vector3 \<times> Vector3 \<times> Vector3" where
  "transform w r = (position (obj w r), rotation (obj w r), scale (obj w r))"

definition wall_dimensions :: "Wall \<Rightarrow> real \<times> real \<times> real" where
  "wall_dimensions wl = (wall_width wl, wall_height wl, wall_depth wl)"

text \<open>
  \<open>fresh_id w0 w r\<close>: in the world \<open>w\<close> the node \<open>r\<close> carries an identifier that
  \<open>generateId\<close> has returned after the world \<open>w0\<close>.
\<close>

definition fresh_id :: "world \<Rightarrow> world \<Rightarrow> ref \<Rightarrow> bool" where
  "fresh_id w0 w r \<longleftrightarrow>
     r < length (objs w)
     \<and> (\<exists>k. draws w0 \<le> k \<and> k < draws w \<and> entityId (userData (obj w r)) = Some (rng w0 k))"

text \<open>
  \<open>keeps m w w'\<close> relates the worlds before and after a step that allocates nodes: the
  first \<open>m\<close> nodes are untouched, every node of \<open>w\<close> keeps all its fields except perhaps
  \<open>children\<close> and \<open>parent\<close>, the random stream is the same, and static fields that were
  set stay as they are.
\<close>

definition same_data :: "Object3D \<Rightarrow> Object3D \<Rightarrow> bool" where
  "same_data a b \<longleftrightarrow>
     position a = position b \<and> rotation a = rotation b \<and> scale a = scale b
     \<and> userData a = userData b \<and> isMesh a = isMesh b \<and> geometry a = geometry b
     \<and> material a = material b \<and> castShadow a = castShadow b
     \<and> receiveShadow a = receiveShadow b"

definition keeps :: "nat \<Rightarrow> world \<Rightarrow> world \<Rightarrow> bool" where
  "keeps m w w' \<longleftrightarrow>
     m \<le> length (objs w) \<and> length (objs w) \<le> length (objs w')
     \<and> (\<forall>r<m. objs w' ! r = objs w ! r)
     \<and> (\<forall>r<length (objs w). same_data (objs w' ! r) (objs w ! r))
     \<and> rng w' = rng w \<and> draws w \<le> draws w'
     \<and> (Wall_geometry w \<noteq> None \<longrightarrow> Wall_geometry w' = Wall_geometry w)
     \<and> (Wall_material w \<noteq> None \<longrightarrow> Wall_material w' = Wall_material w)"

definition wall_ok :: "world \<Rightarrow> Wall \<Rightarrow> bool" where
  "wall_ok w wl \<longleftrightarrow>
     wall_mesh wl < length (objs w)
     \<and> Wall_geometry w \<noteq> None \<and> geometry (obj w (wall_mesh wl)) = Wall_geometry w
     \<and> Wall_material w \<noteq> None
     \<and> material (obj w (wall_mesh wl)) = map_option Single (Wall_material w)
     \<and> scale (obj w (wall_mesh wl)) = Vector3 (wall_width wl) (wall_height wl) (wall_depth wl)"

text \<open>
  \<open>agrees n os w\<close>: the first \<open>n\<close> nodes of the world \<open>w\<close> are the nodes \<open>os\<close>, a
  snapshot of the store taken before the program went on allocating.
\<close>

definition agrees :: "nat \<Rightarrow> Object3D list \<Rightarrow> world \<Rightarrow> bool" where
  "agrees n os w \<longleftrightarrow> n \<le> length (objs w) \<and> (\<forall>r<n. objs w ! r = os ! r)"

text \<open>
  \<open>issued w r\<close>: the identifier of the node \<open>r\<close> is one that \<open>generateId\<close> has returned
  before the world \<open>w\<close>.
\<close>

definition issued :: "world \<Rightarrow> ref \<Rightarrow> bool" where
  "issued w r \<longleftrightarrow>
     r < length (objs w) \<and> (\<exists>k<draws w. entityId (userData (obj w r)) = Some (rng w k))"

text \<open>
  \<open>copies c os rs ks\<close>: in the store \<open>os\<close> the trees at \<open>ks\<close> are, node for node and in
  order, copies of the trees at \<open>rs\<close>: every copy is a node after \<open>c\<close> and carries the
  \<open>userData\<close> of its source, its identifier included.
\<close>

inductive copies :: "ref \<Rightarrow> Object3D list \<Rightarrow> ref list \<Rightarrow> ref list \<Rightarrow> bool" for c os where
  Nil: "copies c os [] []"
| Cons: "r < length os \<Longrightarrow> c < k \<Longrightarrow> k < length os
         \<Longrightarrow> userData (os ! k) = userData (os ! r)
         \<Longrightarrow> copies c os (children (os ! r)) (children (os ! k))
         \<Longrightarrow> copies c os rest ks
         \<Longrightarrow> copies c os (r # rest) (k # ks)"

text \<open>
  \<open>settled n c w w'\<close>: from \<open>w\<close> to \<open>w'\<close> the nodes below \<open>n\<close> and the nodes from \<open>c\<close> on
  have kept their children and their data; the random stream is the same, and static
  fields that were set stay as they are.
\<close>

definition settled :: "nat \<Rightarrow> nat \<Rightarrow> world \<Rightarrow> world \<Rightarrow> bool" where
  "settled n c w w' \<longleftrightarrow>
     length (objs w) \<le> length (objs w') \<and> rng w' = rng w \<and> draws w \<le> draws w'
     \<and> (Wall_geometry w \<noteq> None \<longrightarrow> Wall_geometry w' = Wall_geometry w)
     \<and> (Wall_material w \<noteq> None \<longrightarrow> Wall_material w' = Wall_material w)
     \<and> (\<forall>r<length (objs w). r < n \<or> c \<le> r \<longrightarrow>
           children (objs w' ! r) = children (objs w ! r)
         \<and> same_data (objs w' ! r) (objs w ! r))"

text \<open>
  \<open>Furniture_cloned w w' F F'\<close>: what \<^verbatim>\<open>Furniture.clone()\<close>, run on \<open>F\<close> in the world \<open>w\<close>,
  has established about its result \<open>F'\<close> in a later world \<open>w'\<close>. Name, type and URL are
  those of \<open>F\<close>; the root is a node allocated after \<open>w\<close> with an identifier generated
  after \<open>w\<close>; the nodes below the root are copies of the nodes below the root of \<open>F\<close>.

  \<open>Room_cloned w w' R R'\<close>: the same for \<^verbatim>\<open>Room.clone()\<close>. Name and size are those of
  \<open>R\<close>; the group and the walls are nodes allocated after \<open>w\<close> that carry identifiers
  generated after \<open>w\<close>; there are four walls whose dimensions follow from the size of
  \<open>R\<close>, each using the shared Wall geometry and material; the Furniture are clones of
  the Furniture of \<open>R\<close>, in order.
\<close>

definition Furniture_cloned :: "world \<Rightarrow> world \<Rightarrow> Furniture \<Rightarrow> Furniture \<Rightarrow> bool" where
  "Furniture_cloned w w' F F' \<longleftrightarrow>
     furn_name F' = furn_name F \<and> furn_type F' = furn_type F
     \<and> furn_modelUrl F' = furn_modelUrl F
     \<and> length (objs w) \<le> furn_root F' \<and> furn_root F' < length (objs w')
     \<and> fresh_id w w' (furn_root F')
     \<and> copies (furn_root F') (objs w')
           (children (obj w' (furn_root F))) (children (obj w' (furn_root F')))"

definition Room_cloned :: "world \<Rightarrow> world \<Rightarrow> Room \<Rightarrow> Room \<Rightarrow> bool" where
  "Room_cloned w w' R R' \<longleftrightarrow>
     room_name R' = room_name R \<and> room_width R' = room_width R \<and> room_depth R' = room_depth R
     \<and> length (objs w) \<le> room_group R' \<and> room_group R' < length (objs w')
     \<and> fresh_id w w' (room_group R')
     \<and> list_all2 (Furniture_cloned w w') (room_furnitureList R) (room_furnitureList R')
     \<and> map wall_dimensions (room_walls R') =
          [(room_width R, 3.5, 0.5), (room_width R, 3.5, 0.5),
           (0.5, 3.5, room_depth R), (0.5, 3.5, room_depth R)]
     \<and> (\<forall>wl\<in>set (room_walls R').
           wall_ok w' wl \<and> length (objs w) \<le> wall_mesh wl \<and> fresh_id w w' (wall_mesh wl))"





section \<open>Sample inputs\<close>

definition sample_rng :: "nat \<Rightarrow> string" where
  "sample_rng n = replicate (Suc n) CHR ''a''"

definition init_world :: world where
  "init_world =
     \<lparr>objs = [], resources = [], Wall_geometry = None, Wall_material = None,
      Furniture_placeholderGeometry = None, Furniture_placeholderMaterial = None,
      rng = sample_rng, draws = 0\<rparr>"

definition chair :: furniture_desc where
  "chair = \<lparr>fd_name = Some ''Chair'', fd_type = Some ''Seating'', fd_modelUrl = Some ''chair.glb'',
            fd_position = None, fd_rotation = None, fd_scale = None\<rparr>"

definition lamp :: furniture_desc where
  "lamp = \<lparr>fd_name = Some ''Lamp'', fd_type = Some ''Light'', fd_modelUrl = Some ''lamp.glb'',
           fd_position = Some (Vector3 1 0 1), fd_rotation = None, fd_scale = None\<rparr>"

definition layout_101 :: layout_desc where
  "layout_101 =
     \<lparr>ld_id = Some ''layout-101'', ld_name = Some ''Flat'', ld_cameraView = None,
      ld_rooms = ArrayField
        [Some \<lparr>rd_name = Some ''Living'', rd_width = Some 10, rd_depth = Some 8,
               rd_furniture = ArrayField [Some chair, Some lamp]\<rparr>]\<rparr>"




text \<open>
  Two assets. The first is one mesh whose vertices span the box from \<open>(0, 0, 0)\<close> to
  \<open>(4, 2, 2)\<close>: its largest dimension is 4 and its centre is \<open>(2, 1, 1)\<close>. The second is one
  mesh with a single vertex: its bounding box has size 0. \<open>sample_loader\<close> finds the first
  asset under \<^verbatim>\<open>chair.glb\<close> and fails on every other URL.
\<close>

definition box_asset :: "gltf list" where
  "box_asset = [GltfNode (Vector3 0 0 0) (Vector3 1 1 1) (Some [Vector3 0 0 0, Vector3 4 2 2]) []]"

definition point_asset :: "gltf list" where
  "point_asset = [GltfNode (Vector3 0 0 0) (Vector3 1 1 1) (Some [Vector3 1 1 1]) []]"

definition sample_loader :: GLTFLoader where
  "sample_loader url = (if url = ''chair.glb'' then Inr box_asset else Inl AssetFetchError)"

definition failing_loader :: GLTFLoader where
  "failing_loader url = Inl AssetFetchError"

definition point_loader :: GLTFLoader where
  "point_loader url = Inr point_asset"

definition returned :: "'e + 'a \<Rightarrow> 'a option" where
  "returned r = (case r of Inl e \<Rightarrow> None | Inr x \<Rightarrow> Some x)"

definition master_101 :: Layout3D where
  "master_101 = fst (projr (Layout3D_fromJSON (Some layout_101) init_world))"

definition world_101 :: world where
  "world_101 = snd (projr (Layout3D_fromJSON (Some layout_101) init_world))"

text \<open>
  The sample layout after \<^verbatim>\<open>loadAssets()\<close>: its chair holds a loaded model in place of
  the placeholder.
\<close>

definition loaded_master_101 :: Layout3D where
  "loaded_master_101 = fst (the (Layout3D_loadAssets sample_loader master_101 world_101))"

definition loaded_world_101 :: world where
  "loaded_world_101 = snd (the (Layout3D_loadAssets sample_loader master_101 world_101))"

text \<open>The Room of the hydrated sample layout, with its list of walls emptied.\<close>

definition room_without_walls :: Room where
  "room_without_walls = (hd (lay_rooms master_101))\<lparr>room_walls := []\<rparr>"

section \<open>Scenarios\<close>

text \<open>
  Each scenario is a run of the program on the sample inputs; its value is what the run
  leaves behind. \<open>under_roots w L\<close> lists, for every Furniture of \<open>L\<close>, the node held in
  its field \<open>mesh\<close> and the children of its root, each with its geometry handle.
\<close>

definition under_roots :: "world \<Rightarrow> Furniture list \<Rightarrow> (ref \<times> (ref \<times> handle option) list) list" where
  "under_roots w fs =
     map (\<lambda>f. (furn_mesh f, map (\<lambda>c. (c, geometry (obj w c))) (children (obj w (furn_root f))))) fs"

definition node_ids :: "world \<Rightarrow> ref list \<Rightarrow> string option list" where
  "node_ids w rs = map (\<lambda>r. entityId (userData (obj w r))) rs"

text \<open>A Furniture with an asset reference is hydrated, its fetch fails, and it is disposed.\<close>

definition dispose_after_failed_load ::
  "(handle option \<times> material option \<times> handle option \<times> handle option \<times> bool list) option" where
  "dispose_after_failed_load =
     do { (f, w) \<leftarrow> returned (Furniture_fromJSON (Some chair) init_world);
          (f1, w1) \<leftarrow> Furniture_loadModel failing_loader f w;
          w2 \<leftarrow> Furniture_dispose f1 w1;
          Some (geometry (obj w2 (furn_mesh f1)), material (obj w2 (furn_mesh f1)),
                Furniture_placeholderGeometry w2, Furniture_placeholderMaterial w2,
                map res_disposed (resources w2)) }"

text \<open>The assets of a hydrated layout are loaded; then the same on a clone of that layout.\<close>

definition loadAssets_on_master ::
  "((ref \<times> (ref \<times> handle option) list) list \<times> handle option) option" where
  "loadAssets_on_master =
     do { (master, w) \<leftarrow> returned (Layout3D_fromJSON (Some layout_101) init_world);
          (master1, w1) \<leftarrow> Layout3D_loadAssets sample_loader master w;
          Some (under_roots w1 (all_furniture master1), Furniture_placeholderGeometry w1) }"

definition loadAssets_on_session ::
  "((ref \<times> (ref \<times> handle option) list) list \<times> handle option) option" where
  "loadAssets_on_session =
     do { (master, w) \<leftarrow> returned (Layout3D_fromJSON (Some layout_101) init_world);
          (session, w1) \<leftarrow> Layout3D_clone master w;
          (session1, w2) \<leftarrow> Layout3D_loadAssets sample_loader session w1;
          Some (under_roots w2 (all_furniture session1), Furniture_placeholderGeometry w2) }"

text \<open>A cloned Furniture loads the asset whose bounding box has size 0.\<close>

definition load_point_on_clone ::
  "(Vector3 \<times> Vector3 \<times> (ref \<times> (ref \<times> handle option) list) list \<times> handle option) option" where
  "load_point_on_clone =
     do { (f, w) \<leftarrow> returned (Furniture_fromJSON (Some chair) init_world);
          (f1, w1) \<leftarrow> Furniture_clone f w;
          (f2, w2) \<leftarrow> Furniture_loadModel point_loader f1 w1;
          box \<leftarrow> Box3_setFromObject (furn_mesh f2) w2;
          Some (getSize box, scale (obj w2 (furn_mesh f2)), under_roots w2 [f2],
                Furniture_placeholderGeometry w2) }"

text \<open>
  The bounding box of the first asset as the loader delivers it, and the model after
  \<^verbatim>\<open>loadModel\<close> has normalised it: its scale, its position, and the centre of its bounding
  box, measured in the frame of the Furniture's root.
\<close>

definition box_of_asset :: "(Vector3 \<times> Vector3) option" where
  "box_of_asset =
     (let (model, w) = build_scene box_asset init_world
      in do { box \<leftarrow> Box3_setFromObject model w; Some (getSize box, getCenter box) })"

definition normalized_box_model :: "(Vector3 \<times> Vector3 \<times> Vector3) option" where
  "normalized_box_model =
     do { (f, w) \<leftarrow> returned (Furniture_fromJSON (Some chair) init_world);
          (f1, w1) \<leftarrow> Furniture_loadModel sample_loader f w;
          box \<leftarrow> Box3_setFromObject (furn_mesh f1) w1;
          Some (scale (obj w1 (furn_mesh f1)), position (obj w1 (furn_mesh f1)), getCenter box) }"

text \<open>
  The identifiers of the layout group and of the meshes inside the Furniture roots, in
  the master and in its clone.
\<close>

definition clone_identifiers :: "(string option list \<times> string option list) option" where
  "clone_identifiers =
     do { (master, w) \<leftarrow> returned (Layout3D_fromJSON (Some layout_101) init_world);
          (session, w1) \<leftarrow> Layout3D_clone master w;
          Some (node_ids w1 (lay_group master #
                             concat (map (\<lambda>f. children (obj w1 (furn_root f))) (all_furniture master))),
                node_ids w1 (lay_group session #
                             concat (map (\<lambda>f. children (obj w1 (furn_root f))) (all_furniture session)))) }"

text \<open>
  The same clone when the random generator returns the same value at every call: the
  identifiers of the Room groups, in the master and in its clone.
\<close>

definition room_ids_when_random_repeats :: "(string option list \<times> string option list) option" where
  "room_ids_when_random_repeats =
     do { (master, w) \<leftarrow> returned (Layout3D_fromJSON (Some layout_101)
                                        (init_world\<lparr>rng := \<lambda>k. ''aaa''\<rparr>));
          (session, w1) \<leftarrow> Layout3D_clone master w;
          Some (node_ids w1 (map room_group (lay_rooms master)),
                node_ids w1 (map room_group (lay_rooms session))) }"

section \<open>Rules for running the model\<close>

text \<open>
  The recursive walks over the store unfold one step at a time. A run on concrete inputs
  is evaluated by the simplifier; the rules below present every definition with its
  tuple patterns replaced by projections, so that each step works on evaluated arguments.
\<close>

lemma descendants_Nil: "descendants [] w = Some []"
  by (subst descendants.simps) simp

lemma descendants_Cons:
  "descendants (r # rest) w =
     (if r < length (objs w)
      then do { ds \<leftarrow> descendants (children (obj w r)) w;
                es \<leftarrow> descendants rest w;
                Some (r # ds @ es) }
      else None)"
  by (subst descendants.simps) simp

lemma world_vertices_Nil: "world_vertices t k [] w = Some []"
  by (subst world_vertices.simps) simp

lemma world_vertices_Cons:
  "world_vertices t k (r # rest) w =
     (if r < length (objs w)
      then (let t1 = apply_transform t k (position (obj w r));
                k1 = Vector3 (vx k * vx (scale (obj w r))) (vy k * vy (scale (obj w r)))
                             (vz k * vz (scale (obj w r)))
            in do { ps \<leftarrow> world_vertices t1 k1 (children (obj w r)) w;
                    qs \<leftarrow> world_vertices t k rest w;
                    Some (map (apply_transform t1 k1) (own_vertices w r) @ ps @ qs) })
      else None)"
  by (subst world_vertices.simps) simp

lemma clone_into_Nil: "clone_into p [] w = Some ([], w)"
  by (subst clone_into.simps) simp

lemma clone_into_Cons:
  "clone_into p (r # rest) w =
     (if r < length (objs w)
      then (let source = obj w r;
                (c, w1) = new_obj (source\<lparr>children := [], parent := None\<rparr>) w
            in do { (ks, w2) \<leftarrow> clone_into (Some c) (children source) w1;
                    let w3 = (case p of None \<Rightarrow> w2 | Some q \<Rightarrow> Object3D_add q c w2);
                    (cs, w4) \<leftarrow> clone_into p rest w3;
                    Some (c # cs, w4) })
      else None)"
  by (subst clone_into.simps) simp

lemma bind_weak_cong: "x = y \<Longrightarrow> Option.bind x f = Option.bind y f"
  by simp

lemmas store_defs = obj_def upd_obj_def new_obj_def new_res_def blank_Object3D_def
  no_userData_def new_Group_def new_Mesh_def Object3D_remove_def Object3D_add_def generateId_def

lemmas walk_simps = descendants_Nil descendants_Cons world_vertices_Nil world_vertices_Cons
  clone_into_Nil clone_into_Cons traverse_def Box3_setFromObject_def geometry_vertices_def
  apply_transform_def own_vertices_def Vector3_sub_def multiplyScalar_def

lemmas entity_defs = Wall_init_geometry_def Wall_init_material_def Wall_new_def Wall_setPosition_def
  truthy_def Furniture_init_placeholderGeometry_def Furniture_init_placeholderMaterial_def
  Furniture_new_def Furniture_setPosition_def Furniture_setScale_def Furniture_setRotation_def
  build_scene_def enable_shadows_def Furniture_loadModel_def Furniture_fromJSON_def
  SkeletonUtils_clone_def Furniture_clone_def
  Room_addWall_def Room_addFurniture_def Room_generateWalls_def Room_new_def
  Room_fromJSON_def Room_clone_def Layout3D_new_def Layout3D_addRoom_def
  Layout3D_loadAssets_def Layout3D_fromJSON_def Layout3D_clone_def

lemmas loop_simps = Room_fromJSON_items.simps(2) Room_clone_items.simps(2)
  Layout3D_fromJSON_rooms.simps(2) Layout3D_clone_rooms.simps(2) loadModels.simps(2)
  loadAssets_rooms.simps(2) build_gltf.simps build_gltf_children.simps(2)

lemmas sample_defs = sample_rng_def init_world_def chair_def lamp_def layout_101_def
  box_asset_def sample_loader_def returned_def master_101_def world_101_def

lemmas scenario_defs = under_roots_def all_furniture_def all_walls_def

lemmas run = store_defs walk_simps [unfolded case_prod_unfold] entity_defs [unfolded case_prod_unfold]
  loop_simps [unfolded case_prod_unfold] sample_defs scenario_defs [unfolded case_prod_unfold] Let_def

lemmas run_cong = let_weak_cong bind_weak_cong

section \<open>Runs on the sample inputs\<close>

lemma box_of_asset_value: "box_of_asset = Some (Vector3 4 2 2, Vector3 2 1 1)"
  by (simp add: run box_of_asset_def [unfolded case_prod_unfold]
        del: loop_simps cong: run_cong)

text \<open>
  On the hydrated master the load does what the comments of \<^verbatim>\<open>loadModel\<close> say: the chair
  (root node 7) now holds the loaded model, node 10, in place of its placeholder, and the
  lamp, whose fetch failed, still holds its placeholder, node 8, whose geometry is the shared
  placeholder geometry, handle 2.
\<close>

lemma loadAssets_on_master_value:
  "loadAssets_on_master = Some ([(10, [(10, None)]), (8, [(8, Some 2)])], Some 2)"
  by (simp add: run loadAssets_on_master_def [unfolded case_prod_unfold]
        del: loop_simps cong: run_cong)

text \<open>
  C3 (best-effort asset hydration), on a session: the clone of the sample layout is a
  Layout like any other, and its \<^verbatim>\<open>loadAssets()\<close> resolves. The fetch of the chair
  succeeds, yet afterwards the root of the chair holds two children: node 19, the copy of
  the placeholder (its geometry is the shared placeholder geometry, handle 2), and node 24,
  the loaded model. The placeholder has not been replaced, because the clone's field
  \<open>mesh\<close> names a placeholder that is not under the cloned root. The lamp, whose fetch
  failed, keeps its placeholder, node 23.
\<close>

theorem C3_session_keeps_placeholder_after_load:
  "loadAssets_on_session =
     Some ([(24, [(19, Some 2), (24, None)]), (20, [(23, Some 2)])], Some 2)"
  by (simp add: run loadAssets_on_session_def [unfolded case_prod_unfold]
        del: loop_simps cong: run_cong)

text \<open>
  C6 (asset normalisation): the asset whose bounding box has largest dimension 4 and
  centre \<open>(2, 1, 1)\<close> is loaded. The scale of the model becomes \<open>1/4\<close> on every axis and
  its position \<open>(-2, -1, -1)\<close>; the centre of its bounding box then lies at
  \<open>(-3/2, -3/4, -3/4)\<close> in the frame of the Furniture's root, not at the origin: the
  model is moved by the centre measured before scaling and scaled afterwards.
\<close>

theorem C6_normalized_model_is_off_centre:
  "normalized_box_model =
     Some (Vector3 (1 / 4) (1 / 4) (1 / 4), Vector3 (- 2) (- 1) (- 1),
           Vector3 (- (3 / 2)) (- (3 / 4)) (- (3 / 4)))"
  by (simp add: run normalized_box_model_def [unfolded case_prod_unfold]
        del: loop_simps cong: run_cong)

text \<open>
  C8 (dispose safety on shared resources): a Furniture with an asset reference whose
  load failed is disposed. Its mesh is still the placeholder, whose geometry and material
  are the shared placeholder resources, handles 0 and 1; \<^verbatim>\<open>dispose()\<close> releases both.
\<close>

theorem C8_dispose_releases_shared_placeholder:
  "dispose_after_failed_load = Some (Some 0, Some (Single 1), Some 0, Some 1, [True, True])"
  by (simp add: run dispose_after_failed_load_def [unfolded case_prod_unfold]
          failing_loader_def Furniture_dispose_def dispose_node_def static_object_def dispose_res_def
        del: loop_simps cong: run_cong)

text \<open>
  C10 (guard for a bounding box of size 0), on a cloned Furniture: the asset loads, its
  bounding box has size \<open>(0, 0, 0)\<close>, and the scale of the model stays \<open>(1, 1, 1)\<close>. The
  root then holds node 5, the copy of the placeholder, next to node 6, the loaded model:
  the placeholder under the root has not been replaced.
\<close>

theorem C10_clone_keeps_placeholder_after_load:
  "load_point_on_clone =
     Some (Vector3 0 0 0, Vector3 1 1 1, [(6, [(5, Some 0), (6, None)])], Some 0)"
  by (simp add: run load_point_on_clone_def [unfolded case_prod_unfold]
          point_loader_def point_asset_def
        del: loop_simps cong: run_cong)

text \<open>
  C2 (identity freshness), as stated, fails on the sample layout: the group of the clone
  carries the identifier of the group of the master, and the placeholder meshes inside the
  Furniture roots of the clone carry the identifiers of the master's.
\<close>

theorem C2_clone_repeats_identifiers:
  "clone_identifiers =
     Some ([Some ''layout-101'', Some ''aaaaaa'', Some ''aaaaaaaa''],
           [Some ''layout-101'', Some ''aaaaaa'', Some ''aaaaaaaa''])"
  by (simp add: run clone_identifiers_def [unfolded case_prod_unfold] node_ids_def
        del: loop_simps cong: run_cong)

text \<open>
  \<^verbatim>\<open>generateId()\<close> does not look at the identifiers in use: when the random generator
  repeats itself, the group of a cloned Room has the identifier of the group it was cloned
  from.
\<close>

lemma repeating_stream_repeats_room_ids:
  "room_ids_when_random_repeats = Some ([Some ''aaa''], [Some ''aaa''])"
  by (simp add: run room_ids_when_random_repeats_def [unfolded case_prod_unfold] node_ids_def
        del: loop_simps cong: run_cong)


section \<open>What a step of the program keeps\<close>

text \<open>
  The steps of the program allocate nodes and link them; they never write the data of a
  node that existed before the entity under construction. The lemmas of this section
  carry the relation \<open>keeps\<close> through the primitive steps.
\<close>

lemma nth_upd: "(xs[i := x]) ! j = (if i = j \<and> j < length xs then x else xs ! j)"
  by (cases "i < length xs") (auto simp: nth_list_update list_update_beyond)

lemma same_data_refl [simp]: "same_data a a"
  by (simp add: same_data_def)

lemma same_data_trans: "same_data a b \<Longrightarrow> same_data b c \<Longrightarrow> same_data a c"
  by (simp add: same_data_def)

lemma keeps_refl: "m \<le> length (objs w) \<Longrightarrow> keeps m w w"
  by (simp add: keeps_def)

lemma keeps_trans:
  assumes a: "keeps m w1 w2" and b: "keeps k w2 w3" and mk: "m \<le> k"
  shows "keeps m w1 w3"
proof -
  have l12: "length (objs w1) \<le> length (objs w2)" and l23: "length (objs w2) \<le> length (objs w3)"
    using a b by (simp_all add: keeps_def)
  have n: "\<forall>r<m. objs w3 ! r = objs w1 ! r"
    using a b mk by (simp add: keeps_def)
  have d: "\<forall>r<length (objs w1). same_data (objs w3 ! r) (objs w1 ! r)"
  proof (intro allI impI)
    fix r assume r: "r < length (objs w1)"
    then have "same_data (objs w2 ! r) (objs w1 ! r)" using a by (simp add: keeps_def)
    moreover have "same_data (objs w3 ! r) (objs w2 ! r)" using b r l12 by (simp add: keeps_def)
    ultimately show "same_data (objs w3 ! r) (objs w1 ! r)" by (rule same_data_trans [rotated])
  qed
  have g: "Wall_geometry w1 \<noteq> None \<longrightarrow> Wall_geometry w3 = Wall_geometry w1"
    using a b by (simp add: keeps_def)
  have mt: "Wall_material w1 \<noteq> None \<longrightarrow> Wall_material w3 = Wall_material w1"
    using a b by (simp add: keeps_def)
  have r: "rng w3 = rng w1" "draws w1 \<le> draws w3" "m \<le> length (objs w1)"
    using a b by (simp_all add: keeps_def)
  show ?thesis
    unfolding keeps_def using l12 l23 n d g mt r by simp
qed

lemma keeps_weaken: "keeps m w w' \<Longrightarrow> k \<le> m \<Longrightarrow> keeps k w w'"
  unfolding keeps_def by auto

lemma keeps_length: "keeps m w w' \<Longrightarrow> length (objs w) \<le> length (objs w')"
  by (simp add: keeps_def)

lemma keeps_base: "keeps m w w' \<Longrightarrow> m \<le> length (objs w)"
  by (simp add: keeps_def)

lemma keeps_nth: "keeps m w w' \<Longrightarrow> r < m \<Longrightarrow> objs w' ! r = objs w ! r"
  by (simp add: keeps_def)

lemma keeps_data: "keeps m w w' \<Longrightarrow> r < length (objs w) \<Longrightarrow> same_data (obj w' r) (obj w r)"
  by (simp add: keeps_def obj_def)

lemma keeps_rng: "keeps m w w' \<Longrightarrow> rng w' = rng w"
  by (simp add: keeps_def)

lemma keeps_draws: "keeps m w w' \<Longrightarrow> draws w \<le> draws w'"
  by (simp add: keeps_def)

lemma keeps_new_obj: "keeps m w w1 \<Longrightarrow> keeps m w (snd (new_obj o3 w1))"
  by (auto simp: keeps_def new_obj_def nth_append)

lemma keeps_upd_new:
  "keeps m w w1 \<Longrightarrow> length (objs w) \<le> r \<Longrightarrow> keeps m w (upd_obj r f w1)"
  by (auto simp: keeps_def upd_obj_def nth_upd)

lemma keeps_upd_links:
  "keeps m w w1 \<Longrightarrow> m \<le> r \<Longrightarrow> same_data (f (objs w1 ! r)) (objs w1 ! r)
   \<Longrightarrow> keeps m w (upd_obj r f w1)"
  by (auto simp: keeps_def upd_obj_def nth_upd intro: same_data_trans)

lemma keeps_generateId: "keeps m w w1 \<Longrightarrow> keeps m w (snd (generateId w1))"
  by (auto simp: keeps_def generateId_def)

lemma keeps_Wall_init_geometry: "keeps m w w1 \<Longrightarrow> keeps m w (Wall_init_geometry w1)"
  by (auto simp: keeps_def Wall_init_geometry_def new_res_def split: option.splits)

lemma keeps_Wall_init_material: "keeps m w w1 \<Longrightarrow> keeps m w (Wall_init_material w1)"
  by (auto simp: keeps_def Wall_init_material_def new_res_def split: option.splits)

lemma keeps_placeholderGeometry: "keeps m w w1 \<Longrightarrow> keeps m w (Furniture_init_placeholderGeometry w1)"
  by (auto simp: keeps_def Furniture_init_placeholderGeometry_def new_res_def split: option.splits)

lemma keeps_placeholderMaterial: "keeps m w w1 \<Longrightarrow> keeps m w (Furniture_init_placeholderMaterial w1)"
  by (auto simp: keeps_def Furniture_init_placeholderMaterial_def new_res_def split: option.splits)

lemma length_upd_obj [simp]: "length (objs (upd_obj r f w)) = length (objs w)"
  by (simp add: upd_obj_def)

lemma length_add [simp]: "length (objs (Object3D_add p c w)) = length (objs w)"
  by (auto simp: Object3D_add_def Object3D_remove_def upd_obj_def Let_def split: option.splits)

lemma add_no_parent:
  "parent (obj w c) = None \<Longrightarrow> c \<noteq> p \<Longrightarrow>
   Object3D_add p c w =
     upd_obj p (\<lambda>o3. o3\<lparr>children := children o3 @ [c]\<rparr>) (upd_obj c (\<lambda>o3. o3\<lparr>parent := Some p\<rparr>) w)"
  by (simp add: Object3D_add_def Let_def)

lemma keeps_add:
  "keeps m w w1 \<Longrightarrow> m \<le> p \<Longrightarrow> m \<le> c \<Longrightarrow> parent (obj w1 c) = None
   \<Longrightarrow> keeps m w (Object3D_add p c w1)"
  by (cases "c = p")
     (auto simp: Object3D_add_def add_no_parent same_data_def intro!: keeps_upd_links)

lemma parent_add_other:
  "q \<noteq> c \<Longrightarrow> parent (obj w c) = None \<Longrightarrow> parent (obj (Object3D_add q c w) q) = parent (obj w q)"
  by (auto simp: add_no_parent upd_obj_def obj_def nth_upd)

lemma subtrees_ok_cong:
  "subtrees_ok n os rs \<Longrightarrow> (\<forall>r<n. os' ! r = os ! r) \<Longrightarrow> subtrees_ok n os' rs"
  by (induction rule: subtrees_ok.induct) (auto intro: subtrees_ok.intros)

section \<open>Copying a subtree\<close>

text \<open>
  \<^verbatim>\<open>SkeletonUtils.clone\<close> returns on every finite tree of allocated nodes. Its copy
  consists of new nodes only, which carry the \<open>userData\<close> of their sources, and it
  leaves every older node as it is, but for the node the copies are added to. The
  induction follows the derivation of \<open>subtrees_ok\<close> for a snapshot \<open>os\<close> of the source
  nodes.
\<close>

lemma agrees_keeps: "agrees n os w \<Longrightarrow> keeps m w w' \<Longrightarrow> n \<le> m \<Longrightarrow> agrees n os w'"
  by (auto simp: agrees_def keeps_def)

lemma agrees_self: "agrees (length (objs w)) (objs w) w"
  by (simp add: agrees_def)

lemma copies_mono: "copies c os rs ks \<Longrightarrow> b \<le> c \<Longrightarrow> copies b os rs ks"
  by (induction rule: copies.induct) (auto intro: copies.intros)

lemma copies_cong:
  assumes "copies c os rs ks" and "subtrees_ok n os rs" and "length os \<le> length os'"
    and "\<forall>r<length os. r < n \<or> c < r \<longrightarrow>
            children (os' ! r) = children (os ! r) \<and> userData (os' ! r) = userData (os ! r)"
  shows "copies c os' rs ks"
  using assms
proof (induction rule: copies.induct)
  case Nil
  show ?case by (rule copies.Nil)
next
  case (Cons r k rest ks)
  have rn: "r < n" and t1: "subtrees_ok n os (children (os ! r))" and t2: "subtrees_ok n os rest"
    using Cons.prems(1) by (auto elim: subtrees_ok.cases)
  have er: "children (os' ! r) = children (os ! r)" "userData (os' ! r) = userData (os ! r)"
    using Cons.prems(3) Cons.hyps(1) rn by simp_all
  have ek: "children (os' ! k) = children (os ! k)" "userData (os' ! k) = userData (os ! k)"
    using Cons.prems(3) Cons.hyps(2,3) by simp_all
  have c1: "copies c os' (children (os ! r)) (children (os ! k))"
    using t1 Cons.prems(2,3) by (rule Cons.IH(1))
  have c2: "copies c os' rest ks"
    using t2 Cons.prems(2,3) by (rule Cons.IH(2))
  show ?case
    using Cons.hyps(1,2,3,4) Cons.prems(2) er ek c1 c2
    by (intro copies.Cons) simp_all
qed

lemma add_facts:
  assumes pc: "parent (obj w c) = None" and cq: "c \<noteq> q"
  shows "length (objs (Object3D_add q c w)) = length (objs w)"
    and "r \<noteq> q \<Longrightarrow> children (objs (Object3D_add q c w) ! r) = children (objs w ! r)"
    and "userData (objs (Object3D_add q c w) ! r) = userData (objs w ! r)"
    and "r \<noteq> q \<Longrightarrow> r \<noteq> c \<Longrightarrow> objs (Object3D_add q c w) ! r = objs w ! r"
    and "q < length (objs w) \<Longrightarrow>
           children (objs (Object3D_add q c w) ! q) = children (objs w ! q) @ [c]"
  using cq by (simp_all add: add_no_parent [OF pc cq] upd_obj_def nth_upd)

lemma clone_into_ok:
  assumes "subtrees_ok n os rs"
  shows "\<forall>w m p. agrees n os w \<and> n \<le> m \<and> m \<le> length (objs w)
              \<and> (\<forall>q. p = Some q \<longrightarrow> m \<le> q \<and> q < length (objs w))
          \<longrightarrow> (\<exists>cs w'. clone_into p rs w = Some (cs, w') \<and> keeps m w w'
                 \<and> (\<forall>q. p = Some q \<longrightarrow> parent (obj w' q) = parent (obj w q)
                        \<and> children (obj w' q) = children (obj w q) @ cs)
                 \<and> (\<forall>r<length (objs w). p \<noteq> Some r \<longrightarrow> objs w' ! r = objs w ! r)
                 \<and> (\<forall>b<length (objs w). copies b (objs w') rs cs))"
  using assms
proof (induction rule: subtrees_ok.induct)
  case Nil
  show ?case by (simp add: clone_into_Nil keeps_refl copies.Nil)
next
  case (Cons r rest)
  show ?case
  proof (intro allI impI)
    fix w :: world and m :: nat and p :: "ref option"
    assume pre: "agrees n os w \<and> n \<le> m \<and> m \<le> length (objs w)
              \<and> (\<forall>q. p = Some q \<longrightarrow> m \<le> q \<and> q < length (objs w))"
    define c where "c = length (objs w)"
    define w1 where "w1 = w\<lparr>objs := objs w @ [(os ! r)\<lparr>children := [], parent := None\<rparr>]\<rparr>"
    have rlt: "r < length (objs w)" using Cons.hyps(1) pre by (simp add: agrees_def)
    have src: "obj w r = os ! r" using Cons.hyps(1) pre by (simp add: obj_def agrees_def)
    have k01: "keeps m w w1"
      using keeps_new_obj [OF keeps_refl, of m w "(os ! r)\<lparr>children := [], parent := None\<rparr>"] pre
      by (simp add: new_obj_def w1_def)
    have len1: "length (objs w1) = Suc c" by (simp add: w1_def c_def)
    have pc1: "parent (obj w1 c) = None" by (simp add: w1_def c_def obj_def)
    have n1: "objs w1 ! c = (os ! r)\<lparr>children := [], parent := None\<rparr>"
      by (simp add: w1_def c_def)
    have old1: "\<And>x. x < c \<Longrightarrow> objs w1 ! x = objs w ! x"
      by (simp add: w1_def c_def nth_append)
    have "agrees n os w1 \<and> n \<le> c \<and> c \<le> length (objs w1)
              \<and> (\<forall>q. Some c = Some q \<longrightarrow> c \<le> q \<and> q < length (objs w1))"
      using pre by (auto simp: w1_def c_def nth_append agrees_def)
    with Cons.IH(1) obtain ks w2 where
      r1: "clone_into (Some c) (children (os ! r)) w1 = Some (ks, w2)"
      and k12: "keeps c w1 w2" and pc2: "parent (obj w2 c) = parent (obj w1 c)"
      and kc: "children (obj w2 c) = children (obj w1 c) @ ks"
      and id12: "\<forall>x<length (objs w1). Some c \<noteq> Some x \<longrightarrow> objs w2 ! x = objs w1 ! x"
      and cp1: "\<forall>b<length (objs w1). copies b (objs w2) (children (os ! r)) ks"
      by blast
    define w3 where "w3 = (case p of None \<Rightarrow> w2 | Some q \<Rightarrow> Object3D_add q c w2)"
    have mc: "m \<le> c" using pre by (simp add: c_def)
    have nc: "n \<le> c" using pre mc by simp
    have qc: "\<And>q. p = Some q \<Longrightarrow> q < c \<and> n \<le> q" using pre by (auto simp: c_def)
    have len2: "Suc c \<le> length (objs w2)" using keeps_length [OF k12] len1 by simp
    have pc2': "parent (obj w2 c) = None" using pc1 pc2 by simp
    have k02: "keeps m w w2"
      using k01 k12 mc by (rule keeps_trans)
    have k03: "keeps m w w3"
    proof (cases p)
      case None
      then show ?thesis using k02 by (simp add: w3_def)
    next
      case (Some q)
      then show ?thesis using pre mc pc1 pc2 k02 by (simp add: w3_def keeps_add)
    qed
    have len3: "length (objs w3) = length (objs w2)"
      by (cases p) (simp_all add: w3_def)
    have A: "children (objs w3 ! x) = children (objs w2 ! x)" if "p \<noteq> Some x" for x
    proof (cases p)
      case None
      then show ?thesis by (simp add: w3_def)
    next
      case (Some q)
      have "c \<noteq> q" using qc [OF Some] by simp
      then show ?thesis using Some that add_facts(2) [OF pc2', of q x] by (simp add: w3_def)
    qed
    have U: "userData (objs w3 ! x) = userData (objs w2 ! x)" for x
    proof (cases p)
      case None
      then show ?thesis by (simp add: w3_def)
    next
      case (Some q)
      have "c \<noteq> q" using qc [OF Some] by simp
      then show ?thesis using Some add_facts(3) [OF pc2', of q x] by (simp add: w3_def)
    qed
    have I: "objs w3 ! x = objs w2 ! x" if "p \<noteq> Some x" "x \<noteq> c" for x
    proof (cases p)
      case None
      then show ?thesis by (simp add: w3_def)
    next
      case (Some q)
      have "c \<noteq> q" using qc [OF Some] by simp
      then show ?thesis using Some that add_facts(4) [OF pc2', of q x] by (simp add: w3_def)
    qed
    have B: "children (objs w3 ! q) = children (objs w2 ! q) @ [c]" if "p = Some q" for q
    proof -
      have "c \<noteq> q" "q < length (objs w2)" using qc [OF that] len2 by simp_all
      then show ?thesis using that add_facts(5) [OF pc2', of q] by (simp add: w3_def)
    qed
    have "agrees n os w3 \<and> n \<le> m \<and> m \<le> length (objs w3)
              \<and> (\<forall>q. p = Some q \<longrightarrow> m \<le> q \<and> q < length (objs w3))"
      using pre k03 keeps_length [OF k03] agrees_keeps [of n os w m w3] by auto
    with Cons.IH(2) obtain cs w4 where
      r2: "clone_into p rest w3 = Some (cs, w4)"
      and k34: "keeps m w3 w4"
      and pp: "\<forall>q. p = Some q \<longrightarrow> parent (obj w4 q) = parent (obj w3 q)
                  \<and> children (obj w4 q) = children (obj w3 q) @ cs"
      and id34: "\<forall>x<length (objs w3). p \<noteq> Some x \<longrightarrow> objs w4 ! x = objs w3 ! x"
      and cp2: "\<forall>b<length (objs w3). copies b (objs w4) rest cs"
      by blast
    have len4: "length (objs w3) \<le> length (objs w4)" using k34 by (rule keeps_length)
    have "clone_into p (r # rest) w =
            clone_into (Some c) (children (os ! r)) w1 \<bind>
              (\<lambda>(ks, w2). clone_into p rest (case p of None \<Rightarrow> w2 | Some q \<Rightarrow> Object3D_add q c w2)
                 \<bind> (\<lambda>(cs, w4). Some (c # cs, w4)))"
      unfolding c_def w1_def using rlt src by (simp add: clone_into_Cons new_obj_def Let_def)
    then have res: "clone_into p (r # rest) w = Some (c # cs, w4)"
      using r1 r2 [unfolded w3_def] by simp
    have idall: "objs w4 ! x = objs w ! x" if "x < c" "p \<noteq> Some x" for x
    proof -
      have "objs w4 ! x = objs w3 ! x" using id34 that len2 len3 by simp
      also have "\<dots> = objs w2 ! x" using that by (intro I) simp_all
      also have "\<dots> = objs w1 ! x" using id12 that len1 by simp
      also have "\<dots> = objs w ! x" using that by (simp add: old1)
      finally show ?thesis .
    qed
    have par: "\<forall>q. p = Some q \<longrightarrow> parent (obj w4 q) = parent (obj w q)
                 \<and> children (obj w4 q) = children (obj w q) @ (c # cs)"
    proof (intro allI impI)
      fix q assume pq: "p = Some q"
      then have qlt: "q < c" using qc by simp
      have "parent (obj w3 q) = parent (obj w2 q)"
        using pq qlt pc1 pc2 by (simp add: w3_def parent_add_other)
      also have "\<dots> = parent (obj w1 q)"
        using keeps_nth [OF k12 qlt] by (simp add: obj_def)
      also have "\<dots> = parent (obj w q)"
        using qlt by (simp add: obj_def old1)
      finally have P: "parent (obj w4 q) = parent (obj w q)" using pp pq by simp
      have "objs w2 ! q = objs w ! q" using id12 qlt len1 old1 by simp
      then have "children (obj w4 q) = children (obj w q) @ (c # cs)"
        using pp pq B [OF pq] by (simp add: obj_def)
      with P show "parent (obj w4 q) = parent (obj w q)
                 \<and> children (obj w4 q) = children (obj w q) @ (c # cs)" by simp
    qed
    have cpy: "copies b (objs w4) (r # rest) (c # cs)" if b: "b < c" for b
    proof -
      have pr: "p \<noteq> Some r" using qc Cons.hyps(1) by (cases p) auto
      have pcc: "p \<noteq> Some c" using qc by (cases p) auto
      have e4r: "objs w4 ! r = os ! r"
        using idall [of r] rlt pr src by (simp add: c_def obj_def)
      have e4c: "objs w4 ! c = objs w3 ! c" using id34 pcc len2 len3 by simp
      have uc: "userData (objs w4 ! c) = userData (os ! r)"
        using e4c U [of c] keeps_data [OF k12, of c] len1 n1
        by (simp add: same_data_def obj_def)
      have cc: "children (objs w4 ! c) = ks"
        using e4c A [OF pcc] kc n1 by (simp add: obj_def)
      have t2: "subtrees_ok n (objs w2) (children (os ! r))"
      proof (rule subtrees_ok_cong [OF Cons.hyps(2)])
        show "\<forall>x<n. objs w2 ! x = os ! x"
          using id12 len1 nc old1 pre by (auto simp: agrees_def)
      qed
      have stable: "\<forall>x<length (objs w2). x < n \<or> c < x \<longrightarrow>
              children (objs w4 ! x) = children (objs w2 ! x)
            \<and> userData (objs w4 ! x) = userData (objs w2 ! x)"
      proof (intro allI impI)
        fix x assume x: "x < length (objs w2)" and d: "x < n \<or> c < x"
        have px: "p \<noteq> Some x" using qc d nc by (cases p) auto
        have xc: "x \<noteq> c" using d nc by auto
        have "objs w4 ! x = objs w3 ! x" using id34 x px len3 by simp
        also have "\<dots> = objs w2 ! x" using px xc by (rule I)
        finally show "children (objs w4 ! x) = children (objs w2 ! x)
            \<and> userData (objs w4 ! x) = userData (objs w2 ! x)" by simp
      qed
      have "copies c (objs w2) (children (os ! r)) ks" using cp1 len1 by simp
      then have "copies c (objs w4) (children (os ! r)) ks"
        using t2 _ stable by (rule copies_cong) (use len3 len4 in simp)
      then have k1: "copies b (objs w4) (children (os ! r)) ks"
        by (rule copies_mono) (use b in simp)
      have k2: "copies b (objs w4) rest cs" using cp2 b len2 len3 by simp
      show ?thesis
        using rlt b len2 len3 len4 uc e4r cc k1 k2
        by (intro copies.Cons) (simp_all add: c_def)
    qed
    show "\<exists>cs w'. clone_into p (r # rest) w = Some (cs, w') \<and> keeps m w w'
                 \<and> (\<forall>q. p = Some q \<longrightarrow> parent (obj w' q) = parent (obj w q)
                        \<and> children (obj w' q) = children (obj w q) @ cs)
                 \<and> (\<forall>x<length (objs w). p \<noteq> Some x \<longrightarrow> objs w' ! x = objs w ! x)
                 \<and> (\<forall>b<length (objs w). copies b (objs w') (r # rest) cs)"
      using res keeps_trans [OF k03 k34] par idall cpy
      by (intro exI [of _ "c # cs"] exI [of _ w4]) (simp add: c_def)
  qed
qed

lemma subtrees_ok_single: "subtrees_ok n os [r] \<Longrightarrow> r < n \<and> subtrees_ok n os (children (os ! r))"
  by (erule subtrees_ok.cases) auto

lemma SkeletonUtils_clone_ok:
  assumes t: "subtrees_ok n os [r]" and ag: "agrees n os w" and nm: "n \<le> m"
    and ml: "m \<le> length (objs w)"
  shows "\<exists>w'. SkeletonUtils_clone r w = Some (length (objs w), w') \<and> keeps m w w'
           \<and> length (objs w) < length (objs w') \<and> parent (obj w' (length (objs w))) = None
           \<and> (\<forall>x<length (objs w). objs w' ! x = objs w ! x)
           \<and> userData (obj w' (length (objs w))) = userData (os ! r)
           \<and> copies (length (objs w)) (objs w') (children (os ! r))
                 (children (obj w' (length (objs w))))"
proof -
  define c where "c = length (objs w)"
  define w1 where "w1 = w\<lparr>objs := objs w @ [(os ! r)\<lparr>children := [], parent := None\<rparr>]\<rparr>"
  have rn: "r < n" and kids: "subtrees_ok n os (children (os ! r))"
    using subtrees_ok_single [OF t] by simp_all
  have rlt: "r < length (objs w)" using rn ag by (simp add: agrees_def)
  have src: "obj w r = os ! r" using rn ag by (simp add: obj_def agrees_def)
  have k01: "keeps m w w1"
    using keeps_new_obj [OF keeps_refl, of m w "(os ! r)\<lparr>children := [], parent := None\<rparr>"] ml
    by (simp add: new_obj_def w1_def)
  have len1: "length (objs w1) = Suc c" by (simp add: w1_def c_def)
  have pc1: "parent (obj w1 c) = None" by (simp add: w1_def c_def obj_def)
  have n1: "objs w1 ! c = (os ! r)\<lparr>children := [], parent := None\<rparr>"
    by (simp add: w1_def c_def)
  have old1: "\<And>x. x < c \<Longrightarrow> objs w1 ! x = objs w ! x"
    by (simp add: w1_def c_def nth_append)
  have "agrees n os w1 \<and> n \<le> c \<and> c \<le> length (objs w1)
              \<and> (\<forall>q. Some c = Some q \<longrightarrow> c \<le> q \<and> q < length (objs w1))"
    using ag by (auto simp: w1_def c_def nth_append agrees_def)
  with clone_into_ok [OF kids] obtain ks w2 where
    r1: "clone_into (Some c) (children (os ! r)) w1 = Some (ks, w2)"
    and k12: "keeps c w1 w2" and pc2: "parent (obj w2 c) = parent (obj w1 c)"
    and kc: "children (obj w2 c) = children (obj w1 c) @ ks"
    and id12: "\<forall>x<length (objs w1). Some c \<noteq> Some x \<longrightarrow> objs w2 ! x = objs w1 ! x"
    and cp1: "\<forall>b<length (objs w1). copies b (objs w2) (children (os ! r)) ks"
    by blast
  have mc: "m \<le> c" using ml by (simp add: c_def)
  have k02: "keeps m w w2" using k01 k12 mc by (rule keeps_trans)
  have "clone_into None [r] w =
          clone_into (Some c) (children (os ! r)) w1 \<bind> (\<lambda>(ks, w2). Some ([c], w2))"
    unfolding c_def w1_def using rlt src
    by (simp add: clone_into_Cons clone_into_Nil new_obj_def Let_def)
  then have res: "SkeletonUtils_clone r w = Some (c, w2)"
    using r1 by (simp add: SkeletonUtils_clone_def)
  have lt: "c < length (objs w2)"
    using keeps_length [OF k12] by (simp add: w1_def c_def)
  have ids: "\<forall>x<c. objs w2 ! x = objs w ! x"
    using id12 len1 old1 by simp
  have uc: "userData (obj w2 c) = userData (os ! r)"
    using keeps_data [OF k12, of c] len1 n1 by (simp add: same_data_def obj_def)
  have cp: "copies c (objs w2) (children (os ! r)) (children (obj w2 c))"
    using cp1 len1 kc n1 by (simp add: obj_def)
  show ?thesis
    using res lt k02 pc1 pc2 ids uc cp by (auto simp: c_def)
qed

section \<open>The constructors of Wall and Furniture\<close>

lemma Wall_init_facts:
  "objs (Wall_init_material (Wall_init_geometry w)) = objs w"
  "rng (Wall_init_material (Wall_init_geometry w)) = rng w"
  "draws (Wall_init_material (Wall_init_geometry w)) = draws w"
  "Wall_geometry (Wall_init_material (Wall_init_geometry w)) \<noteq> None"
  "Wall_material (Wall_init_material (Wall_init_geometry w)) \<noteq> None"
  by (auto simp: Wall_init_geometry_def Wall_init_material_def new_res_def split: option.splits)

lemma Wall_new_eq:
  "Wall_new a b c w =
     (\<lparr>wall_width = a, wall_height = b, wall_depth = c, wall_mesh = length (objs w)\<rparr>,
      (Wall_init_material (Wall_init_geometry w))
        \<lparr>objs := objs w @
           [\<lparr>position = Vector3 0 0 0, rotation = Vector3 0 0 0, scale = Vector3 a b c,
             userData = \<lparr>entityId = Some (rng w (draws w)), ud_type = Some ''Wall'',
                         ud_name = None, isMaster = None\<rparr>,
             children = [], parent = None, isMesh = True,
             geometry = Some (the (Wall_geometry (Wall_init_material (Wall_init_geometry w)))),
             material = Some (Single (the (Wall_material (Wall_init_material (Wall_init_geometry w))))),
             castShadow = True, receiveShadow = True\<rparr>],
         draws := Suc (draws w)\<rparr>)"
  by (simp add: Wall_new_def Let_def new_Mesh_def new_obj_def upd_obj_def generateId_def
        blank_Object3D_def no_userData_def Wall_init_facts)

lemma Wall_new_post:
  assumes e: "Wall_new a b c w = (wl, w')" and m: "m \<le> length (objs w)"
  shows "keeps m w w'" and "wall_mesh wl = length (objs w)"
    and "length (objs w') = Suc (length (objs w))"
    and "parent (obj w' (wall_mesh wl)) = None"
    and "wall_ok w' wl" and "wall_dimensions wl = (a, b, c)"
    and "fresh_id w w' (wall_mesh wl)"
proof -
  have k: "keeps m w (Wall_init_material (Wall_init_geometry w))"
    using m by (intro keeps_Wall_init_material keeps_Wall_init_geometry keeps_refl)
  show "keeps m w w'"
    using e k m unfolding Wall_new_eq
    by (auto simp: keeps_def nth_append Wall_init_facts)
  show "wall_mesh wl = length (objs w)" using e by (auto simp: Wall_new_eq)
  show "length (objs w') = Suc (length (objs w))" using e by (auto simp: Wall_new_eq)
  show "parent (obj w' (wall_mesh wl)) = None" using e by (auto simp: Wall_new_eq obj_def)
  show "wall_ok w' wl"
    using e Wall_init_facts(4,5) [of w] by (auto simp: Wall_new_eq obj_def wall_ok_def)
  show "wall_dimensions wl = (a, b, c)" using e by (auto simp: Wall_new_eq wall_dimensions_def)
  show "fresh_id w w' (wall_mesh wl)"
    using e by (auto simp: Wall_new_eq obj_def fresh_id_def Wall_init_facts)
qed

lemma placeholder_init_facts:
  "objs (Furniture_init_placeholderMaterial (Furniture_init_placeholderGeometry w)) = objs w"
  "rng (Furniture_init_placeholderMaterial (Furniture_init_placeholderGeometry w)) = rng w"
  "draws (Furniture_init_placeholderMaterial (Furniture_init_placeholderGeometry w)) = draws w"
  "Wall_geometry (Furniture_init_placeholderMaterial (Furniture_init_placeholderGeometry w)) = Wall_geometry w"
  "Wall_material (Furniture_init_placeholderMaterial (Furniture_init_placeholderGeometry w)) = Wall_material w"
  by (auto simp: Furniture_init_placeholderGeometry_def Furniture_init_placeholderMaterial_def
        new_res_def split: option.splits)

lemma Furniture_new_eq:
  "Furniture_new name type url w =
     (\<lparr>furn_name = name, furn_type = type, furn_modelUrl = url,
       furn_mesh = length (objs w), furn_root = Suc (length (objs w))\<rparr>,
      (Furniture_init_placeholderMaterial (Furniture_init_placeholderGeometry w))
        \<lparr>objs := objs w @
           [\<lparr>position = Vector3 0 0 0, rotation = Vector3 0 0 0, scale = Vector3 1 1 1,
             userData = \<lparr>entityId = Some (rng w (draws w)), ud_type = Some ''Furniture'',
                         ud_name = name, isMaster = None\<rparr>,
             children = [], parent = Some (Suc (length (objs w))), isMesh = True,
             geometry = Some (the (Furniture_placeholderGeometry
                          (Furniture_init_placeholderMaterial (Furniture_init_placeholderGeometry w)))),
             material = Some (Single (the (Furniture_placeholderMaterial
                          (Furniture_init_placeholderMaterial (Furniture_init_placeholderGeometry w))))),
             castShadow = True, receiveShadow = True\<rparr>,
            \<lparr>position = Vector3 0 0 0, rotation = Vector3 0 0 0, scale = Vector3 1 1 1,
             userData = \<lparr>entityId = Some (rng w (Suc (draws w))), ud_type = Some ''Furniture'',
                         ud_name = name, isMaster = None\<rparr>,
             children = [length (objs w)], parent = None, isMesh = False,
             geometry = None, material = None, castShadow = False, receiveShadow = False\<rparr>],
         draws := Suc (Suc (draws w))\<rparr>)"
  by (simp add: Furniture_new_def Let_def new_Mesh_def new_Group_def new_obj_def upd_obj_def
        generateId_def placeholder_init_facts split_def Object3D_add_def obj_def
        blank_Object3D_def no_userData_def nth_append list_update_append)

lemma Furniture_new_post:
  assumes e: "Furniture_new name type url w = (f, w')" and m: "m \<le> length (objs w)"
  shows "keeps m w w'" and "length (objs w') = Suc (Suc (length (objs w)))"
    and "furn_mesh f = length (objs w)" and "furn_root f = Suc (length (objs w))"
    and "furn_name f = name" and "furn_type f = type" and "furn_modelUrl f = url"
    and "subtrees_ok (length (objs w')) (objs w') [furn_root f]"
    and "parent (obj w' (furn_root f)) = None"
    and "draws w' = Suc (Suc (draws w))"
proof -
  have k: "keeps m w (Furniture_init_placeholderMaterial (Furniture_init_placeholderGeometry w))"
    using m by (intro keeps_placeholderMaterial keeps_placeholderGeometry keeps_refl)
  show "keeps m w w'"
    using e k m unfolding Furniture_new_eq
    by (auto simp: keeps_def nth_append placeholder_init_facts)
  show "length (objs w') = Suc (Suc (length (objs w)))" using e by (auto simp: Furniture_new_eq)
  show "furn_mesh f = length (objs w)" "furn_root f = Suc (length (objs w))"
    "furn_name f = name" "furn_type f = type" "furn_modelUrl f = url"
    using e by (auto simp: Furniture_new_eq)
  show "parent (obj w' (furn_root f)) = None"
    using e by (auto simp: Furniture_new_eq obj_def nth_append)
  show "draws w' = Suc (Suc (draws w))" using e by (auto simp: Furniture_new_eq)
  show "subtrees_ok (length (objs w')) (objs w') [furn_root f]"
    using e by (auto simp: Furniture_new_eq nth_append intro!: subtrees_ok.intros)
qed

section \<open>Clones of Furniture and Room\<close>

text \<open>
  Once a Furniture is cloned, the steps that follow change the children and the data of
  no node of the source and of no node of the copy: they write to the group of the Room
  and of the Layout under construction and to nodes they allocate themselves. The
  relation \<open>settled\<close> carries this through the rest of the clone.
\<close>

lemma fresh_id_keeps: "fresh_id w0 w r \<Longrightarrow> keeps m w w' \<Longrightarrow> fresh_id w0 w' r"
  unfolding fresh_id_def keeps_def same_data_def obj_def
  by (metis less_le_trans)

lemma fresh_id_earlier: "fresh_id w1 w' r \<Longrightarrow> keeps m w w1 \<Longrightarrow> fresh_id w w' r"
  unfolding fresh_id_def keeps_def
  by (metis le_trans)

lemma wall_ok_keeps: "wall_ok w wl \<Longrightarrow> keeps m w w' \<Longrightarrow> wall_ok w' wl"
  unfolding wall_ok_def keeps_def same_data_def obj_def
  by (metis less_le_trans)

lemma settled_refl: "settled n c w w"
  by (simp add: settled_def)

lemma settled_trans:
  assumes a: "settled n c w w1" and b: "settled n c w1 w2"
  shows "settled n c w w2"
proof -
  have l: "length (objs w) \<le> length (objs w1)" "length (objs w1) \<le> length (objs w2)"
    using a b by (simp_all add: settled_def)
  have nodes: "children (objs w2 ! r) = children (objs w ! r)
      \<and> same_data (objs w2 ! r) (objs w ! r)"
    if "r < length (objs w)" "r < n \<or> c \<le> r" for r
  proof -
    have "children (objs w1 ! r) = children (objs w ! r)" "same_data (objs w1 ! r) (objs w ! r)"
      using a that by (auto simp: settled_def)
    moreover have "r < length (objs w1)" using that l by simp
    then have "children (objs w2 ! r) = children (objs w1 ! r)"
      "same_data (objs w2 ! r) (objs w1 ! r)"
      using b that by (auto simp: settled_def)
    ultimately show ?thesis using same_data_trans by simp
  qed
  have rest: "rng w2 = rng w" "draws w \<le> draws w2"
    "Wall_geometry w \<noteq> None \<longrightarrow> Wall_geometry w2 = Wall_geometry w"
    "Wall_material w \<noteq> None \<longrightarrow> Wall_material w2 = Wall_material w"
    using a b by (auto simp: settled_def)
  show ?thesis
    unfolding settled_def using l nodes rest by simp
qed

lemma settled_weaken: "settled n c w w' \<Longrightarrow> c \<le> c' \<Longrightarrow> settled n c' w w'"
  by (auto simp: settled_def)

lemma keeps_full_settled: "keeps (length (objs w)) w w' \<Longrightarrow> settled n c w w'"
  by (simp add: keeps_def settled_def)

lemma settled_add:
  "parent (obj w q) = None \<Longrightarrow> q \<noteq> p \<Longrightarrow> n \<le> p \<Longrightarrow> p < c \<Longrightarrow> settled n c w (Object3D_add p q w)"
  by (auto simp: settled_def add_no_parent upd_obj_def nth_upd same_data_def)

lemma settled_upd: "n \<le> g \<Longrightarrow> g < c \<Longrightarrow> settled n c w (upd_obj g f w)"
  by (auto simp: settled_def upd_obj_def nth_upd)

lemma settled_generateId: "settled n c w (snd (generateId w))"
  by (simp add: settled_def generateId_def)

lemma Furniture_cloned_settled:
  assumes fc: "Furniture_cloned w w1 F F'" and t: "subtrees_ok n (objs w1) [furn_root F]"
    and nl: "n \<le> length (objs w1)" and st: "settled n c w1 w'" and c: "c \<le> furn_root F'"
  shows "Furniture_cloned w w' F F'"
proof -
  have rn: "furn_root F < n" and kids: "subtrees_ok n (objs w1) (children (objs w1 ! furn_root F))"
    using subtrees_ok_single [OF t] by simp_all
  have lt: "furn_root F' < length (objs w1)" and fr: "fresh_id w w1 (furn_root F')"
    and cp: "copies (furn_root F') (objs w1)
           (children (obj w1 (furn_root F))) (children (obj w1 (furn_root F')))"
    using fc by (simp_all add: Furniture_cloned_def)
  have len: "length (objs w1) \<le> length (objs w')" and dr: "draws w1 \<le> draws w'"
    and same: "\<forall>r<length (objs w1). r < n \<or> c \<le> r \<longrightarrow>
           children (objs w' ! r) = children (objs w1 ! r)
         \<and> userData (objs w' ! r) = userData (objs w1 ! r)"
    using st by (auto simp: settled_def same_data_def)
  have e1: "children (obj w' (furn_root F')) = children (obj w1 (furn_root F'))"
    "userData (obj w' (furn_root F')) = userData (obj w1 (furn_root F'))"
    using same lt c by (simp_all add: obj_def)
  have e2: "children (obj w' (furn_root F)) = children (obj w1 (furn_root F))"
    using same rn nl by (simp add: obj_def)
  obtain k where k: "draws w \<le> k" "k < draws w1"
    "entityId (userData (obj w1 (furn_root F'))) = Some (rng w k)"
    using fr by (auto simp: fresh_id_def)
  have fr': "fresh_id w w' (furn_root F')"
    unfolding fresh_id_def using k e1 len dr lt by (intro conjI exI [of _ k]) simp_all
  have stable: "\<forall>r<length (objs w1). r < n \<or> furn_root F' < r \<longrightarrow>
           children (objs w' ! r) = children (objs w1 ! r)
         \<and> userData (objs w' ! r) = userData (objs w1 ! r)"
    using same c by auto
  have cp': "copies (furn_root F') (objs w1)
           (children (objs w1 ! furn_root F)) (children (objs w1 ! furn_root F'))"
    using cp by (simp add: obj_def)
  have "copies (furn_root F') (objs w')
           (children (objs w1 ! furn_root F)) (children (objs w1 ! furn_root F'))"
    using cp' kids len stable by (rule copies_cong)
  then show ?thesis
    using fc fr' e1 e2 len lt by (simp add: Furniture_cloned_def obj_def)
qed

lemma Furniture_cloned_earlier:
  "Furniture_cloned w1 w' F F' \<Longrightarrow> keeps m w w1 \<Longrightarrow> Furniture_cloned w w' F F'"
  unfolding Furniture_cloned_def using keeps_length [of m w w1]
  by (auto intro: fresh_id_earlier)

lemma Furniture_clone_ok:
  assumes t: "subtrees_ok n os [furn_root f]" and ag: "agrees n os w"
    and nm: "n \<le> m" and ml: "m \<le> length (objs w)"
  shows "\<exists>f' w'. Furniture_clone f w = Some (f', w') \<and> keeps m w w'
           \<and> parent (obj w' (furn_root f')) = None \<and> Furniture_cloned w w' f f'"
proof -
  obtain cf w1 where fn: "Furniture_new (furn_name f) (furn_type f) (furn_modelUrl f) w = (cf, w1)"
    by (metis surj_pair)
  have k01: "keeps m w w1" using fn ml by (rule Furniture_new_post)
  have ag1: "agrees n os w1" using ag k01 nm by (rule agrees_keeps)
  have ml1: "m \<le> length (objs w1)" using keeps_length [OF k01] ml by simp
  have rn: "furn_root f < n" and kids: "subtrees_ok n os (children (os ! furn_root f))"
    using subtrees_ok_single [OF t] by simp_all
  define c where "c = length (objs w1)"
  have nc: "n \<le> c" using ag1 by (simp add: agrees_def c_def)
  from SkeletonUtils_clone_ok [OF t ag1 nm ml1, folded c_def] obtain w2 where
    sk: "SkeletonUtils_clone (furn_root f) w1 = Some (c, w2)" and k12: "keeps m w1 w2"
    and cl: "c < length (objs w2)" and pc: "parent (obj w2 c) = None"
    and ids: "\<forall>x<c. objs w2 ! x = objs w1 ! x"
    and cp: "copies c (objs w2) (children (os ! furn_root f)) (children (obj w2 c))"
    by (elim exE conjE) (rule that)
  define w3 where "w3 = snd (generateId w2)"
  define w4 where "w4 = upd_obj c (\<lambda>o3. o3\<lparr>userData := (userData o3)
     \<lparr>entityId := Some (rng w2 (draws w2)), ud_type := Some ''Furniture'', ud_name := furn_name f\<rparr>\<rparr>) w3"
  have res: "Furniture_clone f w = Some (cf\<lparr>furn_root := c\<rparr>, w4)"
    using fn sk by (simp add: Furniture_clone_def Let_def generateId_def w3_def w4_def)
  have lc: "length (objs w) \<le> c" using keeps_length [OF k01] by (simp add: c_def)
  have k02: "keeps m w w2" using k01 k12 by (rule keeps_trans) simp
  have k04: "keeps m w w4"
    unfolding w4_def w3_def using k02 lc by (intro keeps_upd_new keeps_generateId)
  have o3: "objs w3 = objs w2" "draws w3 = Suc (draws w2)" "rng w3 = rng w2"
    by (simp_all add: w3_def generateId_def)
  have l4: "length (objs w4) = length (objs w2)" by (simp add: w4_def o3)
  have p4: "parent (obj w4 c) = None"
    using pc cl by (simp add: w4_def upd_obj_def obj_def o3)
  have fr: "fresh_id w w4 c"
    using cl keeps_rng [OF k02] keeps_draws [OF k02]
    by (auto simp: fresh_id_def w4_def upd_obj_def obj_def o3 intro!: exI [of _ "draws w2"])
  have nmf: "furn_name cf = furn_name f" "furn_type cf = furn_type f" "furn_modelUrl cf = furn_modelUrl f"
    using Furniture_new_post(5,6,7) [OF fn ml] by simp_all
  have agn: "\<forall>x<n. objs w2 ! x = os ! x"
    using ids nc ag1 by (auto simp: agrees_def)
  have t2: "subtrees_ok n (objs w2) (children (os ! furn_root f))"
    using kids agn by (rule subtrees_ok_cong)
  have stable: "\<forall>x<length (objs w2). x < n \<or> c < x \<longrightarrow>
              children (objs w4 ! x) = children (objs w2 ! x)
            \<and> userData (objs w4 ! x) = userData (objs w2 ! x)"
    using nc by (auto simp: w4_def upd_obj_def o3 nth_upd)
  have "copies c (objs w4) (children (os ! furn_root f)) (children (obj w2 c))"
    using cp t2 _ stable by (rule copies_cong) (simp add: l4)
  moreover have "children (obj w4 c) = children (obj w2 c)"
    using cl by (simp add: w4_def upd_obj_def obj_def o3)
  moreover have "children (obj w4 (furn_root f)) = children (os ! furn_root f)"
    using rn nc agn cl by (simp add: w4_def upd_obj_def obj_def o3 nth_upd)
  ultimately have cp4: "copies c (objs w4)
      (children (obj w4 (furn_root f))) (children (obj w4 c))"
    by simp
  have "Furniture_cloned w w4 f (cf\<lparr>furn_root := c\<rparr>)"
    unfolding Furniture_cloned_def using nmf lc cl l4 fr cp4 by simp
  then show ?thesis
    using res k04 p4 by (intro exI [of _ "cf\<lparr>furn_root := c\<rparr>"] exI [of _ w4]) simp
qed

lemma Room_clone_items_ok:
  assumes "\<forall>f\<in>set items. subtrees_ok n os [furn_root f]" and "agrees n os w"
    and "n \<le> m" and "m \<le> room_group room" and "room_group room < length (objs w)"
  shows "\<exists>news w'. Room_clone_items items room w =
            Some (room\<lparr>room_furnitureList := room_furnitureList room @ news\<rparr>, w')
          \<and> keeps m w w' \<and> list_all2 (Furniture_cloned w w') items news
          \<and> parent (obj w' (room_group room)) = parent (obj w (room_group room))
          \<and> settled n (Suc (room_group room)) w w'"
  using assms
proof (induction items arbitrary: room w)
  case Nil
  then show ?case by (auto intro!: exI [of _ "[]"] simp: keeps_refl settled_refl)
next
  case (Cons item items)
  define g where "g = room_group room"
  have gl: "g < length (objs w)" and mg: "m \<le> g" using Cons.prems by (simp_all add: g_def)
  have ng: "n \<le> g" using mg Cons.prems(3) by simp
  have t: "subtrees_ok n os [furn_root item]" using Cons.prems by simp
  have nl: "n \<le> length (objs w)" using Cons.prems by (simp add: agrees_def)
  from Furniture_clone_ok [OF t Cons.prems(2) nl order_refl] obtain f' w1 where
    fc: "Furniture_clone item w = Some (f', w1)" and k01: "keeps (length (objs w)) w w1"
    and pf: "parent (obj w1 (furn_root f')) = None" and cl: "Furniture_cloned w w1 item f'"
    by (elim exE conjE) (rule that)
  have lo: "length (objs w) \<le> furn_root f'" and hi: "furn_root f' < length (objs w1)"
    using cl by (simp_all add: Furniture_cloned_def)
  define room1 where "room1 = room\<lparr>room_furnitureList := room_furnitureList room @ [f']\<rparr>"
  define w2 where "w2 = Object3D_add g (furn_root f') w1"
  have mlw: "m \<le> length (objs w)" using mg gl by simp
  have k01m: "keeps m w w1" using k01 mlw by (rule keeps_weaken)
  have k02: "keeps m w w2"
    unfolding w2_def using k01m mg lo mlw pf by (intro keeps_add) simp_all
  have k12: "keeps m w1 w2"
    unfolding w2_def using mg lo mlw pf keeps_length [OF k01]
    by (intro keeps_add keeps_refl) simp_all
  have gf: "g \<noteq> furn_root f'" using gl lo by simp
  have pg2: "parent (obj w2 g) = parent (obj w g)"
  proof -
    have "parent (obj w2 g) = parent (obj w1 g)"
      using gf pf by (simp add: w2_def parent_add_other)
    also have "\<dots> = parent (obj w g)"
      using keeps_nth [OF k01 gl] by (simp add: obj_def)
    finally show ?thesis .
  qed
  have s01: "settled n (Suc g) w w1" using k01 by (rule keeps_full_settled)
  have s12: "settled n (Suc g) w1 w2"
    unfolding w2_def using pf gf ng by (intro settled_add) simp_all
  have ag1: "agrees n os w1" using Cons.prems(2) k01m Cons.prems(3) by (rule agrees_keeps)
  have ag2: "agrees n os w2" using Cons.prems(2) k02 Cons.prems(3) by (rule agrees_keeps)
  have g2: "room_group room1 < length (objs w2)" "m \<le> room_group room1"
    using gl mg keeps_length [OF k02] by (simp_all add: room1_def g_def)
  have "\<forall>f\<in>set items. subtrees_ok n os [furn_root f]" using Cons.prems by simp
  from Cons.IH [OF this ag2 Cons.prems(3) g2(2) g2(1)] obtain news w' where
    rec: "Room_clone_items items room1 w2 =
            Some (room1\<lparr>room_furnitureList := room_furnitureList room1 @ news\<rparr>, w')"
    and k2: "keeps m w2 w'" and la: "list_all2 (Furniture_cloned w2 w') items news"
    and pg: "parent (obj w' (room_group room1)) = parent (obj w2 (room_group room1))"
    and s2: "settled n (Suc (room_group room1)) w2 w'"
    by (elim exE conjE) (rule that)
  have res: "Room_clone_items (item # items) room w =
      Some (room\<lparr>room_furnitureList := room_furnitureList room @ (f' # news)\<rparr>, w')"
    using fc rec by (simp add: Room_addFurniture_def room1_def w2_def g_def)
  have k0: "keeps m w w'" using k02 k2 by (rule keeps_trans) simp
  have s2': "settled n (Suc g) w2 w'" using s2 by (simp add: room1_def g_def)
  have s1: "settled n (Suc g) w1 w'" using s12 s2' by (rule settled_trans)
  have s0: "settled n (Suc g) w w'" using s01 s1 by (rule settled_trans)
  have t1: "subtrees_ok n (objs w1) [furn_root item]"
    using t ag1 by (intro subtrees_ok_cong [OF t]) (simp add: agrees_def)
  have c1: "Furniture_cloned w w' item f'"
    using cl t1 _ s1 by (rule Furniture_cloned_settled) (use ag1 gl lo in \<open>simp_all add: agrees_def\<close>)
  have c2: "list_all2 (Furniture_cloned w w') items news"
    using la by (rule list_all2_mono) (rule Furniture_cloned_earlier [OF _ k02])
  have "parent (obj w' (room_group room)) = parent (obj w (room_group room))"
    using pg pg2 by (simp add: room1_def g_def)
  then show ?case
    using res k0 c1 c2 s0 by (intro exI [of _ "f' # news"] exI [of _ w']) (simp add: g_def)
qed

lemma wall_ok_setPosition: "wall_ok w wl \<Longrightarrow> wall_ok (Wall_setPosition wl' x y z w) wl"
  by (simp add: wall_ok_def Wall_setPosition_def upd_obj_def obj_def nth_upd)

lemma fresh_id_setPosition: "fresh_id w0 w r \<Longrightarrow> fresh_id w0 (Wall_setPosition wl x y z w) r"
  by (simp add: fresh_id_def Wall_setPosition_def upd_obj_def obj_def nth_upd)

lemma wall_step:
  fixes x y z :: real
  assumes e: "Wall_new a b c w = (wl, w1)" and g: "g < length (objs w)" and mg: "m \<le> g"
    and w3_def: "w3 = Object3D_add g (wall_mesh wl) (Wall_setPosition wl x y z w1)"
  shows "keeps m w w3" and "length (objs w3) = Suc (length (objs w))"
    and "wall_ok w3 wl" and "parent (obj w3 g) = parent (obj w g)"
    and "wall_dimensions wl = (a, b, c)" and "wall_mesh wl = length (objs w)"
    and "fresh_id w w3 (wall_mesh wl)"
proof -
  define w2 where "w2 = Wall_setPosition wl x y z w1"
  have ml: "m \<le> length (objs w)" using g mg by simp
  note p = Wall_new_post [OF e order_refl]
  have k01: "keeps m w w1" using p(1) ml by (rule keeps_weaken)
  have k02: "keeps m w w2"
    unfolding w2_def Wall_setPosition_def using k01 p(2) by (intro keeps_upd_new) simp_all
  have l2: "length (objs w2) = Suc (length (objs w))"
    using p(3) by (simp add: w2_def Wall_setPosition_def)
  have pm: "parent (obj w2 (wall_mesh wl)) = None"
    using p(4) p(2) p(3) by (simp add: w2_def Wall_setPosition_def upd_obj_def obj_def)
  have ok2: "wall_ok w2 wl" unfolding w2_def using p(5) by (rule wall_ok_setPosition)
  have w3: "w3 = Object3D_add g (wall_mesh wl) w2" by (simp add: w3_def w2_def)
  have k23: "keeps m w2 w3"
    unfolding w3 using mg ml l2 p(2) pm by (intro keeps_add keeps_refl) simp_all
  show "keeps m w w3" using k02 k23 by (rule keeps_trans) simp
  show "length (objs w3) = Suc (length (objs w))" using l2 by (simp add: w3)
  show "wall_ok w3 wl" using ok2 k23 by (rule wall_ok_keeps)
  have "g \<noteq> wall_mesh wl" using g p(2) by simp
  then have "parent (obj w3 g) = parent (obj w2 g)"
    unfolding w3 using pm by (rule parent_add_other)
  also have "\<dots> = parent (obj w1 g)"
    using g p(2) by (simp add: w2_def Wall_setPosition_def upd_obj_def obj_def nth_upd)
  also have "\<dots> = parent (obj w g)"
    using keeps_nth [OF p(1) g] by (simp add: obj_def)
  finally show "parent (obj w3 g) = parent (obj w g)" .
  show "wall_dimensions wl = (a, b, c)" by (rule p(6))
  show "wall_mesh wl = length (objs w)" by (rule p(2))
  have "fresh_id w w2 (wall_mesh wl)" unfolding w2_def using p(7) by (rule fresh_id_setPosition)
  then show "fresh_id w w3 (wall_mesh wl)" using k23 by (rule fresh_id_keeps)
qed

lemma Room_generateWalls_post:
  assumes rw: "room_walls room = []" and g: "room_group room < length (objs w)"
    and mg: "m \<le> room_group room"
  shows "\<exists>ws w'. Room_generateWalls room w = (room\<lparr>room_walls := ws\<rparr>, w') \<and> keeps m w w'
           \<and> map wall_dimensions ws =
               [(room_width room, 3.5, 0.5), (room_width room, 3.5, 0.5),
                (0.5, 3.5, room_depth room), (0.5, 3.5, room_depth room)]
           \<and> (\<forall>wl\<in>set ws. wall_ok w' wl \<and> length (objs w) \<le> wall_mesh wl
                  \<and> fresh_id w w' (wall_mesh wl))
           \<and> parent (obj w' (room_group room)) = parent (obj w (room_group room))"
proof -
  define gr where "gr = room_group room"
  have g0: "gr < length (objs w)" and mg': "m \<le> gr" using g mg by (simp_all add: gr_def)
  obtain bk w1 where e1: "Wall_new (room_width room) 3.5 0.5 w = (bk, w1)"
    by (metis surj_pair)
  define w3 where "w3 = Object3D_add gr (wall_mesh bk)
     (Wall_setPosition bk 0 (3.5 / 2) (- room_depth room / 2) w1)"
  note s1 = wall_step [OF e1 g0 mg' w3_def]
  have g3: "gr < length (objs w3)" using g0 s1(2) by simp
  obtain fr w4 where e2: "Wall_new (room_width room) 3.5 0.5 w3 = (fr, w4)"
    by (metis surj_pair)
  define w6 where "w6 = Object3D_add gr (wall_mesh fr)
     (Wall_setPosition fr 0 (3.5 / 2) (room_depth room / 2) w4)"
  note s2 = wall_step [OF e2 g3 mg' w6_def]
  have g6: "gr < length (objs w6)" using g3 s2(2) by simp
  obtain lf w7 where e3: "Wall_new 0.5 3.5 (room_depth room) w6 = (lf, w7)"
    by (metis surj_pair)
  define w9 where "w9 = Object3D_add gr (wall_mesh lf)
     (Wall_setPosition lf (- room_width room / 2) (3.5 / 2) 0 w7)"
  note s3 = wall_step [OF e3 g6 mg' w9_def]
  have g9: "gr < length (objs w9)" using g6 s3(2) by simp
  obtain rt w10 where e4: "Wall_new 0.5 3.5 (room_depth room) w9 = (rt, w10)"
    by (metis surj_pair)
  define w12 where "w12 = Object3D_add gr (wall_mesh rt)
     (Wall_setPosition rt (room_width room / 2) (3.5 / 2) 0 w10)"
  note s4 = wall_step [OF e4 g9 mg' w12_def]
  have res: "Room_generateWalls room w = (room\<lparr>room_walls := [bk, fr, lf, rt]\<rparr>, w12)"
    using e1 e2 e3 e4 rw
    by (simp add: Room_generateWalls_def Let_def Room_addWall_def
          w3_def w6_def w9_def w12_def gr_def)
  have k03: "keeps m w w3" by (rule s1(1))
  have k06: "keeps m w w6" using k03 s2(1) by (rule keeps_trans) simp
  have k09: "keeps m w w9" using k06 s3(1) by (rule keeps_trans) simp
  have k012: "keeps m w w12" using k09 s4(1) by (rule keeps_trans) simp
  have k912: "keeps m w9 w12" by (rule s4(1))
  have k612: "keeps m w6 w12" using s3(1) k912 by (rule keeps_trans) simp
  have k312: "keeps m w3 w12" using s2(1) k612 by (rule keeps_trans) simp
  have ok: "wall_ok w12 bk" "wall_ok w12 fr" "wall_ok w12 lf" "wall_ok w12 rt"
    using wall_ok_keeps [OF s1(3) k312] wall_ok_keeps [OF s2(3) k612]
      wall_ok_keeps [OF s3(3) k912] s4(3) by simp_all
  have ms: "length (objs w) \<le> wall_mesh bk" "length (objs w) \<le> wall_mesh fr"
    "length (objs w) \<le> wall_mesh lf" "length (objs w) \<le> wall_mesh rt"
    using s1(6) s2(6) s3(6) s4(6) s1(2) s2(2) s3(2) by simp_all
  have pg: "parent (obj w12 gr) = parent (obj w gr)"
    using s1(4) s2(4) s3(4) s4(4) by simp
  have fi: "fresh_id w w12 (wall_mesh bk)" "fresh_id w w12 (wall_mesh fr)"
    "fresh_id w w12 (wall_mesh lf)" "fresh_id w w12 (wall_mesh rt)"
    using fresh_id_keeps [OF s1(7) k312]
      fresh_id_keeps [OF fresh_id_earlier [OF s2(7) k03] k612]
      fresh_id_keeps [OF fresh_id_earlier [OF s3(7) k06] k912]
      fresh_id_earlier [OF s4(7) k09] by simp_all
  show ?thesis
    using res k012 ok ms pg fi s1(5) s2(5) s3(5) s4(5)
    by (intro exI [of _ "[bk, fr, lf, rt]"] exI [of _ w12]) (simp add: gr_def)
qed

lemma Room_new_post:
  assumes ml: "m \<le> length (objs w)"
  shows "\<exists>room w'. Room_new name wd dp w = (room, w') \<and> keeps m w w'
           \<and> room_name room = name
           \<and> room_width room = (case wd of None \<Rightarrow> 20 | Some x \<Rightarrow> x)
           \<and> room_depth room = (case dp of None \<Rightarrow> 20 | Some x \<Rightarrow> x)
           \<and> room_furnitureList room = []
           \<and> room_group room = length (objs w) \<and> room_group room < length (objs w')
           \<and> map wall_dimensions (room_walls room) =
               [(room_width room, 3.5, 0.5), (room_width room, 3.5, 0.5),
                (0.5, 3.5, room_depth room), (0.5, 3.5, room_depth room)]
           \<and> (\<forall>wl\<in>set (room_walls room). wall_ok w' wl \<and> length (objs w) < wall_mesh wl
                  \<and> fresh_id w w' (wall_mesh wl))
           \<and> parent (obj w' (room_group room)) = None
           \<and> fresh_id w w' (room_group room)"
proof -
  define g where "g = length (objs w)"
  define w3 where "w3 = upd_obj g (\<lambda>o3. o3\<lparr>userData :=
      \<lparr>entityId = Some (rng w (draws w)), ud_type = Some ''Room'', ud_name = name, isMaster = None\<rparr>\<rparr>)
      (snd (generateId (snd (new_Group w))))"
  define room0 where "room0 = \<lparr>room_name = name,
            room_width = (case wd of None \<Rightarrow> 20 | Some x \<Rightarrow> x),
            room_depth = (case dp of None \<Rightarrow> 20 | Some x \<Rightarrow> x),
            room_furnitureList = [], room_walls = [], room_group = g\<rparr>"
  have rn: "Room_new name wd dp w = Room_generateWalls room0 w3"
    by (simp add: Room_new_def new_Group_def new_obj_def generateId_def Let_def
          w3_def room0_def g_def)
  have k03: "keeps m w w3"
    unfolding w3_def new_Group_def using ml
    by (intro keeps_upd_new keeps_generateId keeps_new_obj keeps_refl) (simp_all add: g_def)
  have l3: "length (objs w3) = Suc g"
    by (simp add: w3_def new_Group_def new_obj_def generateId_def g_def)
  have p3: "parent (obj w3 g) = None"
    by (simp add: w3_def new_Group_def new_obj_def generateId_def g_def upd_obj_def obj_def
          blank_Object3D_def)
  have f3: "fresh_id w w3 g"
    by (auto simp: fresh_id_def w3_def new_Group_def new_obj_def generateId_def g_def
          upd_obj_def obj_def intro!: exI [of _ "draws w"])
  have "room_walls room0 = []" "room_group room0 < length (objs w3)" "m \<le> room_group room0"
    using l3 ml by (simp_all add: room0_def g_def)
  from Room_generateWalls_post [OF this] obtain ws w' where
    gw: "Room_generateWalls room0 w3 = (room0\<lparr>room_walls := ws\<rparr>, w')"
    and k3: "keeps m w3 w'"
    and wd: "map wall_dimensions ws =
               [(room_width room0, 3.5, 0.5), (room_width room0, 3.5, 0.5),
                (0.5, 3.5, room_depth room0), (0.5, 3.5, room_depth room0)]"
    and ok: "\<forall>wl\<in>set ws. wall_ok w' wl \<and> length (objs w3) \<le> wall_mesh wl
                  \<and> fresh_id w3 w' (wall_mesh wl)"
    and pg: "parent (obj w' (room_group room0)) = parent (obj w3 (room_group room0))"
    by (elim exE conjE) (rule that)
  have k0: "keeps m w w'" using k03 k3 by (rule keeps_trans) simp
  have lw: "g < length (objs w')" using keeps_length [OF k3] l3 by simp
  have fg: "fresh_id w w' g" using f3 k3 by (rule fresh_id_keeps)
  have ok': "\<forall>wl\<in>set ws. wall_ok w' wl \<and> length (objs w) < wall_mesh wl
                  \<and> fresh_id w w' (wall_mesh wl)"
    using ok l3 fresh_id_earlier [OF _ k03] by (auto simp: g_def)
  show ?thesis
    using rn gw k0 lw fg ok' wd pg p3
    by (intro exI [of _ "room0\<lparr>room_walls := ws\<rparr>"] exI [of _ w']) (simp add: room0_def g_def)
qed

lemma wall_ok_upd:
  "wall_ok w wl \<Longrightarrow>
   (\<And>o3. geometry (f o3) = geometry o3 \<and> material (f o3) = material o3 \<and> scale (f o3) = scale o3)
   \<Longrightarrow> wall_ok (upd_obj r f w) wl"
  by (simp add: wall_ok_def upd_obj_def obj_def nth_upd)

lemma wall_ok_generateId: "wall_ok w wl \<Longrightarrow> wall_ok (snd (generateId w)) wl"
  by (simp add: wall_ok_def generateId_def obj_def)

lemma fresh_id_upd:
  "fresh_id w0 w r \<Longrightarrow> (\<And>o3. entityId (userData (f o3)) = entityId (userData o3))
   \<Longrightarrow> fresh_id w0 (upd_obj q f w) r"
  by (simp add: fresh_id_def upd_obj_def obj_def nth_upd)

lemma fresh_id_upd_other: "fresh_id w0 w r \<Longrightarrow> r \<noteq> q \<Longrightarrow> fresh_id w0 (upd_obj q f w) r"
  by (simp add: fresh_id_def upd_obj_def obj_def nth_upd)

lemma fresh_id_generateId: "fresh_id w0 w r \<Longrightarrow> fresh_id w0 (snd (generateId w)) r"
  by (auto simp: fresh_id_def generateId_def obj_def intro: less_SucI)

lemma wall_ok_settled:
  assumes a: "wall_ok w wl" and s: "settled n c w w'" and c: "c \<le> wall_mesh wl"
  shows "wall_ok w' wl"
proof -
  have lt: "wall_mesh wl < length (objs w)" using a by (simp add: wall_ok_def)
  have sd: "same_data (objs w' ! wall_mesh wl) (objs w ! wall_mesh wl)"
    "length (objs w) \<le> length (objs w')"
    using s c lt by (auto simp: settled_def)
  have st: "Wall_geometry w' = Wall_geometry w" "Wall_material w' = Wall_material w"
    using a s by (auto simp: wall_ok_def settled_def)
  show ?thesis using a lt sd st by (simp add: wall_ok_def same_data_def obj_def)
qed

lemma fresh_id_settled:
  assumes f: "fresh_id w0 w r" and s: "settled n c w w'" and c: "c \<le> r"
  shows "fresh_id w0 w' r"
proof -
  obtain k where k: "r < length (objs w)" "draws w0 \<le> k" "k < draws w"
    "entityId (userData (obj w r)) = Some (rng w0 k)"
    using f by (auto simp: fresh_id_def)
  have "userData (obj w' r) = userData (obj w r)" "length (objs w) \<le> length (objs w')"
    "draws w \<le> draws w'"
    using s c k(1) by (auto simp: settled_def same_data_def obj_def)
  then show ?thesis
    unfolding fresh_id_def using k by (intro conjI exI [of _ k]) simp_all
qed

lemma Room_cloned_settled:
  assumes rc: "Room_cloned w w1 R R'" and st: "settled n c w1 w'" and c: "c \<le> length (objs w)"
    and src: "\<forall>F\<in>set (room_furnitureList R). subtrees_ok n (objs w1) [furn_root F]"
    and nl: "n \<le> length (objs w1)"
  shows "Room_cloned w w' R R'"
proof -
  have len: "length (objs w1) \<le> length (objs w')" using st by (simp add: settled_def)
  have g: "length (objs w) \<le> room_group R'" "room_group R' < length (objs w1)"
    "fresh_id w w1 (room_group R')"
    using rc by (simp_all add: Room_cloned_def)
  have fg: "fresh_id w w' (room_group R')"
    using g(3) st by (rule fresh_id_settled) (use c g(1) in simp)
  have walls: "wall_ok w' wl \<and> length (objs w) \<le> wall_mesh wl \<and> fresh_id w w' (wall_mesh wl)"
    if "wl \<in> set (room_walls R')" for wl
  proof -
    have a: "wall_ok w1 wl" "length (objs w) \<le> wall_mesh wl" "fresh_id w w1 (wall_mesh wl)"
      using rc that by (simp_all add: Room_cloned_def)
    have cw: "c \<le> wall_mesh wl" using c a(2) by simp
    show ?thesis
      using wall_ok_settled [OF a(1) st cw] fresh_id_settled [OF a(3) st cw] a(2) by simp
  qed
  have "list_all2 (Furniture_cloned w w1) (room_furnitureList R) (room_furnitureList R')"
    using rc by (simp add: Room_cloned_def)
  then have furn: "list_all2 (Furniture_cloned w w') (room_furnitureList R) (room_furnitureList R')"
  proof (rule list.rel_mono_strong)
    fix F F' assume m: "F \<in> set (room_furnitureList R)" and fc: "Furniture_cloned w w1 F F'"
    have t: "subtrees_ok n (objs w1) [furn_root F]" using src m by simp
    have "c \<le> furn_root F'" using fc c by (simp add: Furniture_cloned_def)
    with fc t nl st show "Furniture_cloned w w' F F'" by (rule Furniture_cloned_settled)
  qed
  show ?thesis
    unfolding Room_cloned_def using rc g fg walls furn len
    by (simp add: Room_cloned_def)
qed

lemma Room_cloned_earlier:
  assumes rc: "Room_cloned w1 w' R R'" and k: "keeps m w w1"
  shows "Room_cloned w w' R R'"
proof -
  have len: "length (objs w) \<le> length (objs w1)" using k by (rule keeps_length)
  have "list_all2 (Furniture_cloned w1 w') (room_furnitureList R) (room_furnitureList R')"
    using rc by (simp add: Room_cloned_def)
  then have furn: "list_all2 (Furniture_cloned w w') (room_furnitureList R) (room_furnitureList R')"
    by (rule list_all2_mono) (rule Furniture_cloned_earlier [OF _ k])
  have g: "fresh_id w w' (room_group R')"
    using rc by (intro fresh_id_earlier [OF _ k]) (simp add: Room_cloned_def)
  have walls: "wall_ok w' wl \<and> length (objs w) \<le> wall_mesh wl \<and> fresh_id w w' (wall_mesh wl)"
    if "wl \<in> set (room_walls R')" for wl
  proof -
    have a: "wall_ok w' wl" "length (objs w1) \<le> wall_mesh wl" "fresh_id w1 w' (wall_mesh wl)"
      using rc that by (simp_all add: Room_cloned_def)
    show ?thesis using a len fresh_id_earlier [OF a(3) k] by simp
  qed
  show ?thesis
    unfolding Room_cloned_def using rc len g walls furn by (simp add: Room_cloned_def)
qed

lemma Room_clone_ok:
  assumes fs: "\<forall>f\<in>set (room_furnitureList R). subtrees_ok n os [furn_root f]"
    and ag: "agrees n os w" and nm: "n \<le> m" and ml: "m \<le> length (objs w)"
  shows "\<exists>R' w'. Room_clone R w = Some (R', w') \<and> keeps m w w' \<and> Room_cloned w w' R R'
           \<and> parent (obj w' (room_group R')) = None"
proof -
  let ?g = "length (objs w)"
  from Room_new_post [OF ml, of "room_name R" "Some (room_width R)" "Some (room_depth R)"]
  obtain room0 w1 where
    rn: "Room_new (room_name R) (Some (room_width R)) (Some (room_depth R)) w = (room0, w1)"
    and k01: "keeps m w w1"
    and r0: "room_name room0 = room_name R" "room_width room0 = room_width R"
      "room_depth room0 = room_depth R" "room_furnitureList room0 = []" "room_group room0 = ?g"
    and gl1: "?g < length (objs w1)"
    and wd: "map wall_dimensions (room_walls room0) =
               [(room_width room0, 3.5, 0.5), (room_width room0, 3.5, 0.5),
                (0.5, 3.5, room_depth room0), (0.5, 3.5, room_depth room0)]"
    and ok1: "\<forall>wl\<in>set (room_walls room0). wall_ok w1 wl \<and> length (objs w) < wall_mesh wl
                  \<and> fresh_id w w1 (wall_mesh wl)"
    and p1: "parent (obj w1 ?g) = None" and f1: "fresh_id w w1 ?g"
    by (elim exE conjE) (rule that, simp_all)
  have ng: "n \<le> ?g" using nm ml by simp
  have ag1: "agrees n os w1" using ag k01 nm by (rule agrees_keeps)
  have mg: "m \<le> room_group room0" "room_group room0 < length (objs w1)"
    using ml gl1 r0(5) by simp_all
  from Room_clone_items_ok [OF fs ag1 nm mg] obtain news w2 where
    ci: "Room_clone_items (room_furnitureList R) room0 w1 =
           Some (room0\<lparr>room_furnitureList := room_furnitureList room0 @ news\<rparr>, w2)"
    and k12: "keeps m w1 w2"
    and la: "list_all2 (Furniture_cloned w1 w2) (room_furnitureList R) news"
    and pg: "parent (obj w2 (room_group room0)) = parent (obj w1 (room_group room0))"
    by (elim exE conjE) (rule that)
  define R' where "R' = room0\<lparr>room_furnitureList := news\<rparr>"
  define w3 where "w3 = upd_obj ?g (\<lambda>o3. o3\<lparr>position := position (obj w2 (room_group R))\<rparr>) w2"
  define w4 where "w4 = snd (generateId w3)"
  define w5 where "w5 = upd_obj ?g
     (\<lambda>o3. o3\<lparr>userData := (userData o3)\<lparr>entityId := Some (rng w2 (draws w2))\<rparr>\<rparr>) w4"
  have res: "Room_clone R w = Some (R', w5)"
    using rn ci r0
    by (simp add: Room_clone_def Let_def generateId_def R'_def w3_def w4_def w5_def upd_obj_def)
  have k02: "keeps m w w2" using k01 k12 by (rule keeps_trans) simp
  have k05: "keeps m w w5"
    unfolding w5_def w4_def w3_def using k02
    by (intro keeps_upd_new keeps_generateId) simp_all
  have l5: "length (objs w5) = length (objs w2)" "draws w5 = Suc (draws w2)"
    by (simp_all add: w5_def w4_def w3_def generateId_def upd_obj_def)
  have gl2: "?g < length (objs w2)" using gl1 keeps_length [OF k12] by simp
  have p5: "parent (obj w5 ?g) = None"
    using pg p1 r0(5) gl2
    by (simp add: w5_def w4_def w3_def generateId_def upd_obj_def obj_def)
  have f5: "fresh_id w w5 ?g"
    using gl2 keeps_rng [OF k02] keeps_draws [OF k02]
    by (auto simp: fresh_id_def w5_def w4_def w3_def generateId_def upd_obj_def obj_def
          intro!: exI [of _ "draws w2"])
  have s25: "settled n (Suc ?g) w2 w5"
  proof -
    have a: "settled n (Suc ?g) w2 w3" unfolding w3_def using ng by (intro settled_upd) simp_all
    have b: "settled n (Suc ?g) w3 w4" unfolding w4_def by (rule settled_generateId)
    have c: "settled n (Suc ?g) w4 w5" unfolding w5_def using ng by (intro settled_upd) simp_all
    show ?thesis using settled_trans [OF a settled_trans [OF b c]] .
  qed
  have walls: "wall_ok w5 wl \<and> length (objs w) \<le> wall_mesh wl \<and> fresh_id w w5 (wall_mesh wl)"
    if "wl \<in> set (room_walls room0)" for wl
  proof -
    from that ok1 have a: "wall_ok w1 wl" "length (objs w) < wall_mesh wl"
      "fresh_id w w1 (wall_mesh wl)" by simp_all
    have b: "Suc ?g \<le> wall_mesh wl" using a(2) by simp
    have "wall_ok w2 wl" using a(1) k12 by (rule wall_ok_keeps)
    then have "wall_ok w5 wl" using s25 b by (rule wall_ok_settled)
    moreover have "fresh_id w w2 (wall_mesh wl)" using a(3) k12 by (rule fresh_id_keeps)
    then have "fresh_id w w5 (wall_mesh wl)" using s25 b by (rule fresh_id_settled)
    ultimately show ?thesis using a(2) by simp
  qed
  have ag2: "agrees n os w2" using ag k02 nm by (rule agrees_keeps)
  have furn: "list_all2 (Furniture_cloned w w5) (room_furnitureList R) news"
    using la
  proof (rule list.rel_mono_strong)
    fix F F' assume m: "F \<in> set (room_furnitureList R)" and fc: "Furniture_cloned w1 w2 F F'"
    have t0: "subtrees_ok n os [furn_root F]" using fs m by simp
    have t: "subtrees_ok n (objs w2) [furn_root F]"
      using t0 by (rule subtrees_ok_cong) (use ag2 in \<open>simp add: agrees_def\<close>)
    have nl: "n \<le> length (objs w2)" using ag2 by (simp add: agrees_def)
    have "Suc ?g \<le> furn_root F'" using fc gl1 by (simp add: Furniture_cloned_def)
    with fc t nl s25 have "Furniture_cloned w1 w5 F F'" by (rule Furniture_cloned_settled)
    then show "Furniture_cloned w w5 F F'" using k01 by (rule Furniture_cloned_earlier)
  qed
  have "Room_cloned w w5 R R'"
    unfolding Room_cloned_def using r0 gl2 l5 f5 wd walls furn
    by (simp add: R'_def)
  then show ?thesis using res k05 p5 r0(5) by (simp add: R'_def)
qed

section \<open>Clones of a Layout\<close>

lemma Layout3D_clone_rooms_ok:
  assumes "\<forall>R\<in>set rooms. \<forall>f\<in>set (room_furnitureList R). subtrees_ok n os [furn_root f]"
    and "agrees n os w" and "n \<le> m" and "m \<le> lay_group lay"
    and "lay_group lay < length (objs w)"
  shows "\<exists>news w'. Layout3D_clone_rooms rooms lay w =
            Some (lay\<lparr>lay_rooms := lay_rooms lay @ news\<rparr>, w')
          \<and> keeps m w w' \<and> list_all2 (Room_cloned w w') rooms news
          \<and> settled n (Suc (lay_group lay)) w w'"
  using assms
proof (induction rooms arbitrary: lay w)
  case Nil
  then show ?case by (auto intro!: exI [of _ "[]"] simp: keeps_refl settled_refl)
next
  case (Cons R rooms)
  let ?g = "lay_group lay"
  have ml: "m \<le> length (objs w)" using Cons.prems by simp
  have ng: "n \<le> ?g" using Cons.prems by simp
  have nl: "n \<le> length (objs w)" using Cons.prems by (simp add: agrees_def)
  have fs: "\<forall>f\<in>set (room_furnitureList R). subtrees_ok n os [furn_root f]"
    using Cons.prems by simp
  from Room_clone_ok [OF fs Cons.prems(2) nl order_refl] obtain R' w1 where
    rc: "Room_clone R w = Some (R', w1)" and k01f: "keeps (length (objs w)) w w1"
    and cl: "Room_cloned w w1 R R'" and pr: "parent (obj w1 (room_group R')) = None"
    by (elim exE conjE) (rule that)
  have k01: "keeps m w w1" using k01f ml by (rule keeps_weaken)
  define lay1 where "lay1 = lay\<lparr>lay_rooms := lay_rooms lay @ [R']\<rparr>"
  define w2 where "w2 = Object3D_add ?g (room_group R') w1"
  have lo: "length (objs w) \<le> room_group R'" using cl by (simp add: Room_cloned_def)
  have gr: "room_group R' \<noteq> ?g" using lo Cons.prems(5) by simp
  have k12: "keeps m w1 w2"
    unfolding w2_def using Cons.prems(4) ml lo pr keeps_length [OF k01]
    by (intro keeps_add keeps_refl) simp_all
  have k02: "keeps m w w2" using k01 k12 by (rule keeps_trans) simp
  have s01: "settled n (Suc ?g) w w1" using k01f by (rule keeps_full_settled)
  have s12: "settled n (Suc ?g) w1 w2"
    unfolding w2_def using pr gr ng by (intro settled_add) simp_all
  have ag1: "agrees n os w1" using Cons.prems(2) k01 Cons.prems(3) by (rule agrees_keeps)
  have ag2: "agrees n os w2" using Cons.prems(2) k02 Cons.prems(3) by (rule agrees_keeps)
  have g2: "m \<le> lay_group lay1" "lay_group lay1 < length (objs w2)"
    using Cons.prems(4,5) keeps_length [OF k02] by (simp_all add: lay1_def)
  have "\<forall>R\<in>set rooms. \<forall>f\<in>set (room_furnitureList R). subtrees_ok n os [furn_root f]"
    using Cons.prems by simp
  from Cons.IH [OF this ag2 Cons.prems(3) g2] obtain news w' where
    rec: "Layout3D_clone_rooms rooms lay1 w2 =
            Some (lay1\<lparr>lay_rooms := lay_rooms lay1 @ news\<rparr>, w')"
    and k2: "keeps m w2 w'" and la: "list_all2 (Room_cloned w2 w') rooms news"
    and s2: "settled n (Suc (lay_group lay1)) w2 w'"
    by (elim exE conjE) (rule that)
  have res: "Layout3D_clone_rooms (R # rooms) lay w =
      Some (lay\<lparr>lay_rooms := lay_rooms lay @ (R' # news)\<rparr>, w')"
    using rc rec by (simp add: Layout3D_addRoom_def lay1_def w2_def)
  have k0: "keeps m w w'" using k02 k2 by (rule keeps_trans) simp
  have s2': "settled n (Suc ?g) w2 w'" using s2 by (simp add: lay1_def)
  have s1: "settled n (Suc ?g) w1 w'" using s12 s2' by (rule settled_trans)
  have s0: "settled n (Suc ?g) w w'" using s01 s1 by (rule settled_trans)
  have src: "\<forall>F\<in>set (room_furnitureList R). subtrees_ok n (objs w1) [furn_root F]"
  proof
    fix F assume "F \<in> set (room_furnitureList R)"
    then have "subtrees_ok n os [furn_root F]" using fs by simp
    then show "subtrees_ok n (objs w1) [furn_root F]"
      by (rule subtrees_ok_cong) (use ag1 in \<open>simp add: agrees_def\<close>)
  qed
  have c1: "Room_cloned w w' R R'"
    using cl s1 _ src by (rule Room_cloned_settled) (use Cons.prems(5) ag1 in \<open>simp_all add: agrees_def\<close>)
  have c2: "list_all2 (Room_cloned w w') rooms news"
    using la by (rule list_all2_mono) (rule Room_cloned_earlier [OF _ k02])
  show ?case
    using res k0 c1 c2 s0 by (intro exI [of _ "R' # news"] exI [of _ w']) simp
qed

lemma Layout3D_clone_ok:
  assumes fs: "\<forall>R\<in>set (lay_rooms L). \<forall>f\<in>set (room_furnitureList R).
                 subtrees_ok n os [furn_root f]"
    and ag: "agrees n os w" and nm: "n \<le> m" and ml: "m \<le> length (objs w)"
  shows "\<exists>L' w'. Layout3D_clone L w = Some (L', w') \<and> keeps m w w'
           \<and> lay_id L' = lay_id L \<and> lay_description L' = lay_description L
           \<and> lay_cameraView L' = lay_cameraView L
           \<and> lay_group L' = length (objs w) \<and> lay_group L' < length (objs w')
           \<and> userData (obj w' (lay_group L')) =
               \<lparr>entityId = lay_id L, ud_type = Some ''Layout3D'', ud_name = None,
                isMaster = Some False\<rparr>
           \<and> list_all2 (Room_cloned w w') (lay_rooms L) (lay_rooms L')"
proof -
  let ?g = "length (objs w)"
  define w1 where "w1 = upd_obj ?g (\<lambda>o3. o3\<lparr>userData :=
      \<lparr>entityId = lay_id L, ud_type = Some ''Layout3D'', ud_name = None, isMaster = Some True\<rparr>\<rparr>)
      (snd (new_Group w))"
  define lay1 where "lay1 = \<lparr>lay_id = lay_id L, lay_description = lay_description L,
      lay_rooms = [], lay_cameraView = lay_cameraView L, lay_group = ?g\<rparr>"
  have ng: "n \<le> ?g" using nm ml by simp
  have k01: "keeps m w w1"
    unfolding w1_def new_Group_def using ml
    by (intro keeps_upd_new keeps_new_obj keeps_refl) simp_all
  have l1: "length (objs w1) = Suc ?g" by (simp add: w1_def new_Group_def new_obj_def)
  have u1: "userData (obj w1 ?g) =
      \<lparr>entityId = lay_id L, ud_type = Some ''Layout3D'', ud_name = None, isMaster = Some True\<rparr>"
    by (simp add: w1_def new_Group_def new_obj_def upd_obj_def obj_def)
  have ag1: "agrees n os w1" using ag k01 nm by (rule agrees_keeps)
  have g1: "m \<le> lay_group lay1" "lay_group lay1 < length (objs w1)"
    using ml l1 by (simp_all add: lay1_def)
  from Layout3D_clone_rooms_ok [OF fs ag1 nm g1] obtain news w2 where
    cr: "Layout3D_clone_rooms (lay_rooms L) lay1 w1 =
           Some (lay1\<lparr>lay_rooms := lay_rooms lay1 @ news\<rparr>, w2)"
    and k12: "keeps m w1 w2" and la: "list_all2 (Room_cloned w1 w2) (lay_rooms L) news"
    by (elim exE conjE) (rule that)
  define L' where "L' = lay1\<lparr>lay_rooms := news\<rparr>"
  define w3 where "w3 = upd_obj ?g
     (\<lambda>o3. o3\<lparr>userData := (userData o3)\<lparr>isMaster := Some False\<rparr>\<rparr>) w2"
  have res: "Layout3D_clone L w = Some (L', w3)"
    using cr
    by (cases "lay_cameraView L")
       (simp_all add: Layout3D_clone_def Layout3D_new_def new_Group_def new_obj_def Let_def
          lay1_def w1_def L'_def w3_def)
  have k02: "keeps m w w2" using k01 k12 by (rule keeps_trans) simp
  have k03: "keeps m w w3" unfolding w3_def using k02 by (intro keeps_upd_new) simp_all
  have gl2: "?g < length (objs w2)" using l1 keeps_length [OF k12] by simp
  have "same_data (obj w2 ?g) (obj w1 ?g)" using k12 by (rule keeps_data) (simp add: l1)
  then have u3: "userData (obj w3 ?g) =
      \<lparr>entityId = lay_id L, ud_type = Some ''Layout3D'', ud_name = None, isMaster = Some False\<rparr>"
    using u1 gl2 by (simp add: same_data_def w3_def upd_obj_def obj_def)
  have s23: "settled n (Suc ?g) w2 w3" unfolding w3_def using ng by (intro settled_upd) simp_all
  have ag2: "agrees n os w2" using ag k02 nm by (rule agrees_keeps)
  have c3: "list_all2 (Room_cloned w w3) (lay_rooms L) news"
    using la
  proof (rule list.rel_mono_strong)
    fix R R' assume m: "R \<in> set (lay_rooms L)" and rc: "Room_cloned w1 w2 R R'"
    have src: "\<forall>F\<in>set (room_furnitureList R). subtrees_ok n (objs w2) [furn_root F]"
    proof
      fix F assume "F \<in> set (room_furnitureList R)"
      then have "subtrees_ok n os [furn_root F]" using fs m by simp
      then show "subtrees_ok n (objs w2) [furn_root F]"
        by (rule subtrees_ok_cong) (use ag2 in \<open>simp add: agrees_def\<close>)
    qed
    have "Room_cloned w1 w3 R R'"
      using rc s23 _ src by (rule Room_cloned_settled) (use l1 ag2 in \<open>simp_all add: agrees_def\<close>)
    then show "Room_cloned w w3 R R'" using k01 by (rule Room_cloned_earlier)
  qed
  show ?thesis
    using res k03 u3 c3 gl2
    by (intro exI [of _ L'] exI [of _ w3]) (simp add: L'_def lay1_def w3_def)
qed

lemma Layout_ok_subtrees:
  "Layout_ok w L \<Longrightarrow> \<forall>R\<in>set (lay_rooms L). \<forall>f\<in>set (room_furnitureList R).
      subtrees_ok (length (objs w)) (objs w) [furn_root f]"
  by (simp add: Layout_ok_def Room_ok_def Furniture_ok_def list_all_iff)

lemma Furniture_cloned_roots:
  "list_all2 (Furniture_cloned w w') fs fs' \<Longrightarrow>
   length fs' = length fs
   \<and> (\<forall>f'\<in>set fs'. length (objs w) \<le> furn_root f' \<and> furn_root f' < length (objs w')
         \<and> fresh_id w w' (furn_root f'))"
  by (induction rule: list_all2_induct) (auto simp: Furniture_cloned_def)

lemma Room_cloned_furniture:
  "list_all2 (Room_cloned w w') rooms rooms' \<Longrightarrow>
   length (concat (map room_furnitureList rooms')) = length (concat (map room_furnitureList rooms))
   \<and> (\<forall>f'\<in>set (concat (map room_furnitureList rooms')).
         length (objs w) \<le> furn_root f' \<and> furn_root f' < length (objs w')
         \<and> fresh_id w w' (furn_root f'))"
proof (induction rule: list_all2_induct)
  case Nil
  show ?case by simp
next
  case (Cons R rooms R' rooms')
  have "list_all2 (Furniture_cloned w w') (room_furnitureList R) (room_furnitureList R')"
    using Cons.hyps(1) by (simp add: Room_cloned_def)
  from Furniture_cloned_roots [OF this] Cons.IH show ?case by auto
qed

lemma Layout_ok_roots:
  assumes "Layout_ok w L" and "f \<in> set (all_furniture L)"
  shows "furn_root f < length (objs w)"
  using assms Layout_ok_subtrees [of w L] subtrees_ok_single
  by (fastforce simp: all_furniture_def)

lemma transform_upd_other: "r \<noteq> q \<Longrightarrow> transform (upd_obj q f w) r = transform w r"
  by (simp add: transform_def upd_obj_def obj_def nth_upd)

lemma fresh_differs:
  assumes f: "fresh_id w w' r" and k: "keeps m w w'" and inj: "inj_on (rng w) {..<draws w'}"
    and i: "issued w r0"
  shows "entityId (userData (obj w' r)) \<noteq> entityId (userData (obj w' r0))"
proof -
  obtain a where a: "draws w \<le> a" "a < draws w'" "entityId (userData (obj w' r)) = Some (rng w a)"
    using f by (auto simp: fresh_id_def)
  obtain b where b: "r0 < length (objs w)" "b < draws w"
    "entityId (userData (obj w r0)) = Some (rng w b)"
    using i by (auto simp: issued_def)
  have "userData (obj w' r0) = userData (obj w r0)"
    using keeps_data [OF k b(1)] by (simp add: same_data_def)
  then have e: "entityId (userData (obj w' r0)) = Some (rng w b)" using b(3) by simp
  have "a \<noteq> b" "a \<in> {..<draws w'}" "b \<in> {..<draws w'}" using a b by simp_all
  then have "rng w a \<noteq> rng w b" using inj by (auto dest: inj_onD)
  then show ?thesis using a(3) e by simp
qed

lemma Room_cloned_walls:
  assumes "Room_cloned w w' R R'"
  shows "length (room_walls R') = 4"
proof -
  from assms have "map wall_dimensions (room_walls R') =
      [(room_width R, 3.5, 0.5), (room_width R, 3.5, 0.5),
       (0.5, 3.5, room_depth R), (0.5, 3.5, room_depth R)]"
    by (simp add: Room_cloned_def)
  then have "length (map wall_dimensions (room_walls R')) =
      length [(room_width R, 3.5 :: real, 0.5 :: real), (room_width R, 3.5, 0.5),
       (0.5, 3.5, room_depth R), (0.5, 3.5, room_depth R)]"
    by (rule arg_cong)
  then show ?thesis by simp
qed

section \<open>Hydration and its failures\<close>






section \<open>The sample layout is well formed\<close>

lemma subtrees_ok_Nil: "subtrees_ok n os [] = True"
  by (simp add: subtrees_ok.Nil)

lemma subtrees_ok_Cons:
  "subtrees_ok n os (r # rest) =
     (r < n \<and> subtrees_ok n os (children (os ! r)) \<and> subtrees_ok n os rest)"
  by (auto intro: subtrees_ok.intros elim: subtrees_ok.cases)

lemma master_101_ok: "Layout_ok world_101 master_101"
  by (simp add: run Layout_ok_def Room_ok_def Furniture_ok_def subtrees_ok_Nil subtrees_ok_Cons
        del: loop_simps cong: run_cong)

text \<open>
  So is the sample layout once its assets are loaded, with a model of the loader under the
  root of its chair: the properties of clones below apply to it as well.
\<close>

lemma loaded_master_101_ok: "Layout_ok loaded_world_101 loaded_master_101"
  by (simp add: run loaded_master_101_def loaded_world_101_def Layout_ok_def Room_ok_def
        Furniture_ok_def subtrees_ok_Nil subtrees_ok_Cons del: loop_simps cong: run_cong)

text \<open>
  The identifiers of the sample come from \<open>generateId\<close>, and its random stream returns
  no value twice.
\<close>

lemma sample_rng_inj: "inj (rng world_101)"
  by (simp add: run inj_def del: loop_simps cong: run_cong)

lemma sample_ids_issued:
  "issued world_101 (room_group (hd (lay_rooms master_101)))"
  "issued world_101 (wall_mesh (hd (all_walls master_101)))"
  "issued world_101 (furn_root (hd (all_furniture master_101)))"
proof -
  have "room_group (hd (lay_rooms master_101)) < length (objs world_101)
      \<and> 0 < draws world_101
      \<and> entityId (userData (obj world_101 (room_group (hd (lay_rooms master_101)))))
          = Some (rng world_101 0)"
    by (simp add: run del: loop_simps cong: run_cong)
  then show "issued world_101 (room_group (hd (lay_rooms master_101)))"
    unfolding issued_def by blast
  have "wall_mesh (hd (all_walls master_101)) < length (objs world_101)
      \<and> 1 < draws world_101
      \<and> entityId (userData (obj world_101 (wall_mesh (hd (all_walls master_101)))))
          = Some (rng world_101 1)"
    by (simp add: run del: loop_simps cong: run_cong)
  then show "issued world_101 (wall_mesh (hd (all_walls master_101)))"
    unfolding issued_def by blast
  have "furn_root (hd (all_furniture master_101)) < length (objs world_101)
      \<and> 6 < draws world_101
      \<and> entityId (userData (obj world_101 (furn_root (hd (all_furniture master_101)))))
          = Some (rng world_101 6)"
    by (simp add: run eval_nat_numeral del: loop_simps cong: run_cong)
  then show "issued world_101 (furn_root (hd (all_furniture master_101)))"
    unfolding issued_def by blast
qed

section \<open>Properties of cloning and hydration\<close>

text \<open>
  C1 (session isolation). Let \<open>L\<close> be the master registered under \<open>ident\<close>, well formed
  in the world \<open>w\<close>. Then \<^verbatim>\<open>getSessionClone(ident)\<close> returns a session \<open>S\<close> with as many
  Furniture as \<open>L\<close>. For the Furniture at any position \<open>i\<close>: cloning has left the
  transform of the master's Furniture as it was; \<^verbatim>\<open>setPosition\<close>, \<^verbatim>\<open>setRotation\<close> and
  \<^verbatim>\<open>setScale\<close> on the session's Furniture leave the transform of the master's Furniture
  unchanged, and the same calls on the master's Furniture leave the transform of the
  session's Furniture unchanged.
\<close>

theorem C1_session_isolation:
  assumes reg: "masters ident = Some L" and ok: "Layout_ok w L"
  shows "\<exists>S w'. getSessionClone masters ident w = Some (Inr (S, w'))
           \<and> length (all_furniture S) = length (all_furniture L)
           \<and> (\<forall>i<length (all_furniture L). \<forall>x y z.
                 transform w' (furn_root (all_furniture L ! i))
                   = transform w (furn_root (all_furniture L ! i))
               \<and> transform (Furniture_setPosition (all_furniture S ! i) x y z w')
                     (furn_root (all_furniture L ! i))
                   = transform w' (furn_root (all_furniture L ! i))
               \<and> transform (Furniture_setRotation (all_furniture S ! i) x y z w')
                     (furn_root (all_furniture L ! i))
                   = transform w' (furn_root (all_furniture L ! i))
               \<and> transform (Furniture_setScale (all_furniture S ! i) x y z w')
                     (furn_root (all_furniture L ! i))
                   = transform w' (furn_root (all_furniture L ! i))
               \<and> transform (Furniture_setPosition (all_furniture L ! i) x y z w')
                     (furn_root (all_furniture S ! i))
                   = transform w' (furn_root (all_furniture S ! i))
               \<and> transform (Furniture_setRotation (all_furniture L ! i) x y z w')
                     (furn_root (all_furniture S ! i))
                   = transform w' (furn_root (all_furniture S ! i))
               \<and> transform (Furniture_setScale (all_furniture L ! i) x y z w')
                     (furn_root (all_furniture S ! i))
                   = transform w' (furn_root (all_furniture S ! i)))"
proof -
  from Layout3D_clone_ok [OF Layout_ok_subtrees [OF ok] agrees_self order_refl order_refl]
  obtain S w' where cl: "Layout3D_clone L w = Some (S, w')"
    and k: "keeps (length (objs w)) w w'"
    and la: "list_all2 (Room_cloned w w') (lay_rooms L) (lay_rooms S)"
    by (elim exE conjE) (rule that)
  have gs: "getSessionClone masters ident w = Some (Inr (S, w'))"
    using reg cl by (simp add: getSessionClone_def)
  note rf = Room_cloned_furniture [OF la, folded all_furniture_def]
  have len: "length (all_furniture S) = length (all_furniture L)" using rf by simp
  have iso: "transform w' (furn_root (all_furniture L ! i))
                   = transform w (furn_root (all_furniture L ! i))
      \<and> transform (upd_obj (furn_root (all_furniture S ! i)) f w') (furn_root (all_furniture L ! i))
           = transform w' (furn_root (all_furniture L ! i))
      \<and> transform (upd_obj (furn_root (all_furniture L ! i)) f w') (furn_root (all_furniture S ! i))
           = transform w' (furn_root (all_furniture S ! i))"
    if i: "i < length (all_furniture L)" for i f
  proof -
    have a: "furn_root (all_furniture L ! i) < length (objs w)"
      using ok i by (intro Layout_ok_roots [of w L]) simp_all
    have "all_furniture S ! i \<in> set (all_furniture S)" using i len by simp
    then have b: "length (objs w) \<le> furn_root (all_furniture S ! i)" using rf by simp
    have "transform w' (furn_root (all_furniture L ! i))
            = transform w (furn_root (all_furniture L ! i))"
      using keeps_nth [OF k a] by (simp add: transform_def obj_def)
    then show ?thesis using a b by (simp add: transform_upd_other)
  qed
  show ?thesis
    using gs len iso
    by (simp add: Furniture_setPosition_def Furniture_setRotation_def Furniture_setScale_def)
qed

theorem C1_session_isolation_witness:
  "registerMaster ''layout-101'' master_101 Map.empty ''layout-101'' = Some master_101
   \<and> Layout_ok world_101 master_101 \<and> length (all_furniture master_101) = 2
   \<and> (\<exists>S w'. getSessionClone (registerMaster ''layout-101'' master_101 Map.empty)
                  ''layout-101'' world_101 = Some (Inr (S, w'))
           \<and> length (all_furniture S) = length (all_furniture master_101)
           \<and> (\<forall>i<length (all_furniture master_101). \<forall>x y z.
                 transform w' (furn_root (all_furniture master_101 ! i))
                   = transform world_101 (furn_root (all_furniture master_101 ! i))
               \<and> transform (Furniture_setPosition (all_furniture S ! i) x y z w')
                     (furn_root (all_furniture master_101 ! i))
                   = transform w' (furn_root (all_furniture master_101 ! i))
               \<and> transform (Furniture_setRotation (all_furniture S ! i) x y z w')
                     (furn_root (all_furniture master_101 ! i))
                   = transform w' (furn_root (all_furniture master_101 ! i))
               \<and> transform (Furniture_setScale (all_furniture S ! i) x y z w')
                     (furn_root (all_furniture master_101 ! i))
                   = transform w' (furn_root (all_furniture master_101 ! i))
               \<and> transform (Furniture_setPosition (all_furniture master_101 ! i) x y z w')
                     (furn_root (all_furniture S ! i))
                   = transform w' (furn_root (all_furniture S ! i))
               \<and> transform (Furniture_setRotation (all_furniture master_101 ! i) x y z w')
                     (furn_root (all_furniture S ! i))
                   = transform w' (furn_root (all_furniture S ! i))
               \<and> transform (Furniture_setScale (all_furniture master_101 ! i) x y z w')
                     (furn_root (all_furniture S ! i))
                   = transform w' (furn_root (all_furniture S ! i))))"
proof -
  have r: "registerMaster ''layout-101'' master_101 Map.empty ''layout-101'' = Some master_101"
    by (simp add: registerMaster_def)
  have n: "length (all_furniture master_101) = 2"
    by (simp add: run del: loop_simps cong: run_cong)
  show ?thesis
    using C1_session_isolation [where masters = "registerMaster ''layout-101'' master_101 Map.empty"
        and ident = "''layout-101''", OF r master_101_ok] r master_101_ok n
    by (intro conjI)
qed

text \<open>
  C2 (identity freshness), amended. Let \<open>L'\<close> be the clone of a well-formed Layout \<open>L\<close>.

    \<^item> The root group of \<open>L'\<close> carries the identifier of \<open>L\<close>, not a new one.

    \<^item> The group of every Room of \<open>L'\<close>, the mesh of every Wall and the root of every
      Furniture carry an identifier that \<^verbatim>\<open>generateId()\<close> has returned during the cloning.

    \<^item> The nodes below the root of a Furniture of \<open>L'\<close> are copies, node for node, of the
      nodes below the root of the Furniture of \<open>L\<close> at the same place, whatever these are
      (a placeholder or a loaded model): each is a node allocated by the clone and has
      the \<open>userData\<close> of its source, so it repeats the identifier of its source.

    \<^item> If the values that \<^verbatim>\<open>generateId()\<close> has returned up to the end of the cloning are
      pairwise different, then the identifier of every Room group, Wall mesh and Furniture
      root of \<open>L'\<close> differs from the identifier of every node whose identifier
      \<^verbatim>\<open>generateId()\<close> had returned before: from those of the Rooms, Walls and Furniture roots
      of \<open>L\<close> in particular, when \<open>L\<close> was built by \<^verbatim>\<open>fromJSON\<close> or by \<^verbatim>\<open>clone\<close>. The
      condition cannot be dropped: \<^verbatim>\<open>generateId()\<close> compares its value with nothing, and
      when the random stream repeats, so do the identifiers
      (lemma \<open>repeating_stream_repeats_room_ids\<close>).
\<close>

theorem C2_clone_identifiers:
  assumes ok: "Layout_ok w L"
  shows "\<exists>L' w'. Layout3D_clone L w = Some (L', w')
           \<and> entityId (userData (obj w' (lay_group L'))) = lay_id L
           \<and> length (lay_rooms L') = length (lay_rooms L)
           \<and> (\<forall>j<length (lay_rooms L).
                 fresh_id w w' (room_group (lay_rooms L' ! j))
               \<and> (\<forall>wl\<in>set (room_walls (lay_rooms L' ! j)). fresh_id w w' (wall_mesh wl))
               \<and> length (room_furnitureList (lay_rooms L' ! j))
                   = length (room_furnitureList (lay_rooms L ! j))
               \<and> (\<forall>i<length (room_furnitureList (lay_rooms L ! j)).
                     fresh_id w w' (furn_root (room_furnitureList (lay_rooms L' ! j) ! i))
                   \<and> copies (furn_root (room_furnitureList (lay_rooms L' ! j) ! i)) (objs w')
                       (children (obj w' (furn_root (room_furnitureList (lay_rooms L ! j) ! i))))
                       (children (obj w' (furn_root (room_furnitureList (lay_rooms L' ! j) ! i))))))
           \<and> (inj_on (rng w) {..<draws w'} \<longrightarrow>
                (\<forall>r. issued w r \<longrightarrow>
                   (\<forall>j<length (lay_rooms L).
                       entityId (userData (obj w' (room_group (lay_rooms L' ! j))))
                         \<noteq> entityId (userData (obj w' r))
                     \<and> (\<forall>wl\<in>set (room_walls (lay_rooms L' ! j)).
                           entityId (userData (obj w' (wall_mesh wl)))
                             \<noteq> entityId (userData (obj w' r)))
                     \<and> (\<forall>F'\<in>set (room_furnitureList (lay_rooms L' ! j)).
                           entityId (userData (obj w' (furn_root F')))
                             \<noteq> entityId (userData (obj w' r))))))"
proof -
  from Layout3D_clone_ok [OF Layout_ok_subtrees [OF ok] agrees_self order_refl order_refl]
  obtain L' w' where cl: "Layout3D_clone L w = Some (L', w')"
    and k: "keeps (length (objs w)) w w'"
    and ud: "userData (obj w' (lay_group L')) =
               \<lparr>entityId = lay_id L, ud_type = Some ''Layout3D'', ud_name = None,
                isMaster = Some False\<rparr>"
    and la: "list_all2 (Room_cloned w w') (lay_rooms L) (lay_rooms L')"
    by (elim exE conjE) (rule that)
  have len: "length (lay_rooms L') = length (lay_rooms L)"
    using list_all2_lengthD [OF la] by simp
  have rooms: "fresh_id w w' (room_group (lay_rooms L' ! j))
      \<and> (\<forall>wl\<in>set (room_walls (lay_rooms L' ! j)). fresh_id w w' (wall_mesh wl))
      \<and> list_all2 (Furniture_cloned w w') (room_furnitureList (lay_rooms L ! j))
            (room_furnitureList (lay_rooms L' ! j))"
    if "j < length (lay_rooms L)" for j
    using list_all2_nthD [OF la that] by (simp add: Room_cloned_def)
  have part2: "fresh_id w w' (room_group (lay_rooms L' ! j))
               \<and> (\<forall>wl\<in>set (room_walls (lay_rooms L' ! j)). fresh_id w w' (wall_mesh wl))
               \<and> length (room_furnitureList (lay_rooms L' ! j))
                   = length (room_furnitureList (lay_rooms L ! j))
               \<and> (\<forall>i<length (room_furnitureList (lay_rooms L ! j)).
                     fresh_id w w' (furn_root (room_furnitureList (lay_rooms L' ! j) ! i))
                   \<and> copies (furn_root (room_furnitureList (lay_rooms L' ! j) ! i)) (objs w')
                       (children (obj w' (furn_root (room_furnitureList (lay_rooms L ! j) ! i))))
                       (children (obj w' (furn_root (room_furnitureList (lay_rooms L' ! j) ! i)))))"
    if j: "j < length (lay_rooms L)" for j
  proof -
    note r = rooms [OF j]
    have fl: "list_all2 (Furniture_cloned w w') (room_furnitureList (lay_rooms L ! j))
            (room_furnitureList (lay_rooms L' ! j))" using r by simp
    have "fresh_id w w' (furn_root (room_furnitureList (lay_rooms L' ! j) ! i))
        \<and> copies (furn_root (room_furnitureList (lay_rooms L' ! j) ! i)) (objs w')
            (children (obj w' (furn_root (room_furnitureList (lay_rooms L ! j) ! i))))
            (children (obj w' (furn_root (room_furnitureList (lay_rooms L' ! j) ! i))))"
      if "i < length (room_furnitureList (lay_rooms L ! j))" for i
      using list_all2_nthD [OF fl that] by (simp add: Furniture_cloned_def)
    then show ?thesis using r list_all2_lengthD [OF fl] by simp
  qed
  have part3: "entityId (userData (obj w' (room_group (lay_rooms L' ! j))))
                         \<noteq> entityId (userData (obj w' r))
                     \<and> (\<forall>wl\<in>set (room_walls (lay_rooms L' ! j)).
                           entityId (userData (obj w' (wall_mesh wl)))
                             \<noteq> entityId (userData (obj w' r)))
                     \<and> (\<forall>F'\<in>set (room_furnitureList (lay_rooms L' ! j)).
                           entityId (userData (obj w' (furn_root F')))
                             \<noteq> entityId (userData (obj w' r)))"
    if inj: "inj_on (rng w) {..<draws w'}" and i: "issued w r" and j: "j < length (lay_rooms L)"
    for r j
  proof -
    note r = rooms [OF j]
    have "\<forall>F'\<in>set (room_furnitureList (lay_rooms L' ! j)). fresh_id w w' (furn_root F')"
      using r Furniture_cloned_roots by blast
    then show ?thesis
      using r fresh_differs [OF _ k inj i] by simp
  qed
  show ?thesis
    using cl ud len part2 part3
    by (intro exI [of _ L'] exI [of _ w']) simp
qed

theorem C2_clone_identifiers_witness:
  "Layout_ok world_101 master_101 \<and> inj (rng world_101)
   \<and> issued world_101 (room_group (hd (lay_rooms master_101)))
   \<and> issued world_101 (wall_mesh (hd (all_walls master_101)))
   \<and> issued world_101 (furn_root (hd (all_furniture master_101)))
   \<and> (\<exists>L' w'. Layout3D_clone master_101 world_101 = Some (L', w')
           \<and> entityId (userData (obj w' (lay_group L'))) = lay_id master_101
           \<and> length (lay_rooms L') = length (lay_rooms master_101)
           \<and> (\<forall>j<length (lay_rooms master_101).
                 fresh_id world_101 w' (room_group (lay_rooms L' ! j))
               \<and> (\<forall>wl\<in>set (room_walls (lay_rooms L' ! j)). fresh_id world_101 w' (wall_mesh wl))
               \<and> length (room_furnitureList (lay_rooms L' ! j))
                   = length (room_furnitureList (lay_rooms master_101 ! j))
               \<and> (\<forall>i<length (room_furnitureList (lay_rooms master_101 ! j)).
                     fresh_id world_101 w' (furn_root (room_furnitureList (lay_rooms L' ! j) ! i))
                   \<and> copies (furn_root (room_furnitureList (lay_rooms L' ! j) ! i)) (objs w')
                       (children (obj w' (furn_root (room_furnitureList (lay_rooms master_101 ! j) ! i))))
                       (children (obj w' (furn_root (room_furnitureList (lay_rooms L' ! j) ! i))))))
           \<and> (inj_on (rng world_101) {..<draws w'} \<longrightarrow>
                (\<forall>r. issued world_101 r \<longrightarrow>
                   (\<forall>j<length (lay_rooms master_101).
                       entityId (userData (obj w' (room_group (lay_rooms L' ! j))))
                         \<noteq> entityId (userData (obj w' r))
                     \<and> (\<forall>wl\<in>set (room_walls (lay_rooms L' ! j)).
                           entityId (userData (obj w' (wall_mesh wl)))
                             \<noteq> entityId (userData (obj w' r)))
                     \<and> (\<forall>F'\<in>set (room_furnitureList (lay_rooms L' ! j)).
                           entityId (userData (obj w' (furn_root F')))
                             \<noteq> entityId (userData (obj w' r)))))))"
  using C2_clone_identifiers [OF master_101_ok] master_101_ok sample_rng_inj sample_ids_issued
  by (intro conjI)

text \<open>
  C4 (shared resources are not duplicated). Two clones \<open>C1\<close> and \<open>C2\<close> are taken of a
  well-formed Layout \<open>L\<close>, one after the other. Every Room of either clone has four
  walls. The wall at position \<open>i\<close> of the Room at position \<open>j\<close> is a different node in
  \<open>C1\<close> and in \<open>C2\<close>, and the two nodes hold the same geometry handle and the same
  material handle: the static \<^verbatim>\<open>Wall.geometry\<close> and \<^verbatim>\<open>Wall.material\<close>.
\<close>

theorem C4_clones_share_wall_resources:
  assumes ok: "Layout_ok w L"
  shows "\<exists>C1 w1 C2 w2. Layout3D_clone L w = Some (C1, w1) \<and> Layout3D_clone L w1 = Some (C2, w2)
           \<and> length (lay_rooms C1) = length (lay_rooms L)
           \<and> length (lay_rooms C2) = length (lay_rooms L)
           \<and> (\<forall>j<length (lay_rooms L).
                 length (room_walls (lay_rooms C1 ! j)) = 4
               \<and> length (room_walls (lay_rooms C2 ! j)) = 4
               \<and> (\<forall>i<4.
                     wall_mesh (room_walls (lay_rooms C1 ! j) ! i)
                       \<noteq> wall_mesh (room_walls (lay_rooms C2 ! j) ! i)
                   \<and> geometry (obj w2 (wall_mesh (room_walls (lay_rooms C1 ! j) ! i)))
                       = geometry (obj w2 (wall_mesh (room_walls (lay_rooms C2 ! j) ! i)))
                   \<and> geometry (obj w2 (wall_mesh (room_walls (lay_rooms C1 ! j) ! i)))
                       = Wall_geometry w2
                   \<and> material (obj w2 (wall_mesh (room_walls (lay_rooms C1 ! j) ! i)))
                       = material (obj w2 (wall_mesh (room_walls (lay_rooms C2 ! j) ! i)))
                   \<and> material (obj w2 (wall_mesh (room_walls (lay_rooms C1 ! j) ! i)))
                       = map_option Single (Wall_material w2)
                   \<and> Wall_geometry w2 \<noteq> None \<and> Wall_material w2 \<noteq> None))"
proof -
  note fs = Layout_ok_subtrees [OF ok]
  from Layout3D_clone_ok [OF fs agrees_self order_refl order_refl]
  obtain C1 w1 where c1: "Layout3D_clone L w = Some (C1, w1)"
    and k1: "keeps (length (objs w)) w w1"
    and g1: "lay_group C1 < length (objs w1)"
    and la1: "list_all2 (Room_cloned w w1) (lay_rooms L) (lay_rooms C1)"
    by (elim exE conjE) (rule that)
  have ag1: "agrees (length (objs w)) (objs w) w1"
    using agrees_self k1 order_refl by (rule agrees_keeps)
  from Layout3D_clone_ok [OF fs ag1 keeps_length [OF k1] order_refl]
  obtain C2 w2 where c2: "Layout3D_clone L w1 = Some (C2, w2)"
    and k2: "keeps (length (objs w1)) w1 w2"
    and la2: "list_all2 (Room_cloned w1 w2) (lay_rooms L) (lay_rooms C2)"
    by (elim exE conjE) (rule that)
  have l1: "length (lay_rooms C1) = length (lay_rooms L)"
    and l2: "length (lay_rooms C2) = length (lay_rooms L)"
    using list_all2_lengthD [OF la1] list_all2_lengthD [OF la2] by simp_all
  have rooms: "length (room_walls (lay_rooms C1 ! j)) = 4
      \<and> length (room_walls (lay_rooms C2 ! j)) = 4
      \<and> (\<forall>i<4.
             wall_mesh (room_walls (lay_rooms C1 ! j) ! i)
               \<noteq> wall_mesh (room_walls (lay_rooms C2 ! j) ! i)
           \<and> geometry (obj w2 (wall_mesh (room_walls (lay_rooms C1 ! j) ! i)))
               = geometry (obj w2 (wall_mesh (room_walls (lay_rooms C2 ! j) ! i)))
           \<and> geometry (obj w2 (wall_mesh (room_walls (lay_rooms C1 ! j) ! i)))
               = Wall_geometry w2
           \<and> material (obj w2 (wall_mesh (room_walls (lay_rooms C1 ! j) ! i)))
               = material (obj w2 (wall_mesh (room_walls (lay_rooms C2 ! j) ! i)))
           \<and> material (obj w2 (wall_mesh (room_walls (lay_rooms C1 ! j) ! i)))
               = map_option Single (Wall_material w2)
           \<and> Wall_geometry w2 \<noteq> None \<and> Wall_material w2 \<noteq> None)"
    if j: "j < length (lay_rooms L)" for j
  proof -
    have r1: "Room_cloned w w1 (lay_rooms L ! j) (lay_rooms C1 ! j)"
      using la1 j by (simp add: list_all2_nthD)
    have r2: "Room_cloned w1 w2 (lay_rooms L ! j) (lay_rooms C2 ! j)"
      using la2 j by (simp add: list_all2_nthD)
    have n1: "length (room_walls (lay_rooms C1 ! j)) = 4"
      using r1 by (rule Room_cloned_walls)
    have n2: "length (room_walls (lay_rooms C2 ! j)) = 4"
      using r2 by (rule Room_cloned_walls)
    have "wall_mesh (room_walls (lay_rooms C1 ! j) ! i)
               \<noteq> wall_mesh (room_walls (lay_rooms C2 ! j) ! i)
           \<and> geometry (obj w2 (wall_mesh (room_walls (lay_rooms C1 ! j) ! i)))
               = geometry (obj w2 (wall_mesh (room_walls (lay_rooms C2 ! j) ! i)))
           \<and> geometry (obj w2 (wall_mesh (room_walls (lay_rooms C1 ! j) ! i)))
               = Wall_geometry w2
           \<and> material (obj w2 (wall_mesh (room_walls (lay_rooms C1 ! j) ! i)))
               = material (obj w2 (wall_mesh (room_walls (lay_rooms C2 ! j) ! i)))
           \<and> material (obj w2 (wall_mesh (room_walls (lay_rooms C1 ! j) ! i)))
               = map_option Single (Wall_material w2)
           \<and> Wall_geometry w2 \<noteq> None \<and> Wall_material w2 \<noteq> None"
      if i: "i < 4" for i
    proof -
      have m1: "room_walls (lay_rooms C1 ! j) ! i \<in> set (room_walls (lay_rooms C1 ! j))"
        and m2: "room_walls (lay_rooms C2 ! j) ! i \<in> set (room_walls (lay_rooms C2 ! j))"
        using i n1 n2 by simp_all
      have a: "wall_ok w1 (room_walls (lay_rooms C1 ! j) ! i)"
        using r1 m1 by (simp add: Room_cloned_def)
      have b: "wall_ok w2 (room_walls (lay_rooms C2 ! j) ! i)"
        "length (objs w1) \<le> wall_mesh (room_walls (lay_rooms C2 ! j) ! i)"
        using r2 m2 by (simp_all add: Room_cloned_def)
      have c: "wall_mesh (room_walls (lay_rooms C1 ! j) ! i) < length (objs w1)"
        using a by (simp add: wall_ok_def)
      show ?thesis
        using wall_ok_keeps [OF a k2] b c by (simp add: wall_ok_def)
    qed
    then show ?thesis using n1 n2 by blast
  qed
  show ?thesis
    using c1 c2 l1 l2 rooms
    apply -
    apply (rule exI [of _ C1], rule exI [of _ w1], rule exI [of _ C2], rule exI [of _ w2])
    apply blast
    done
qed

theorem C4_clones_share_wall_resources_witness:
  "Layout_ok world_101 master_101
   \<and> (\<exists>C1 w1 C2 w2. Layout3D_clone master_101 world_101 = Some (C1, w1)
           \<and> Layout3D_clone master_101 w1 = Some (C2, w2)
           \<and> length (lay_rooms C1) = length (lay_rooms master_101)
           \<and> length (lay_rooms C2) = length (lay_rooms master_101)
           \<and> (\<forall>j<length (lay_rooms master_101).
                 length (room_walls (lay_rooms C1 ! j)) = 4
               \<and> length (room_walls (lay_rooms C2 ! j)) = 4
               \<and> (\<forall>i<4.
                     wall_mesh (room_walls (lay_rooms C1 ! j) ! i)
                       \<noteq> wall_mesh (room_walls (lay_rooms C2 ! j) ! i)
                   \<and> geometry (obj w2 (wall_mesh (room_walls (lay_rooms C1 ! j) ! i)))
                       = geometry (obj w2 (wall_mesh (room_walls (lay_rooms C2 ! j) ! i)))
                   \<and> geometry (obj w2 (wall_mesh (room_walls (lay_rooms C1 ! j) ! i)))
                       = Wall_geometry w2
                   \<and> material (obj w2 (wall_mesh (room_walls (lay_rooms C1 ! j) ! i)))
                       = material (obj w2 (wall_mesh (room_walls (lay_rooms C2 ! j) ! i)))
                   \<and> material (obj w2 (wall_mesh (room_walls (lay_rooms C1 ! j) ! i)))
                       = map_option Single (Wall_material w2)
                   \<and> Wall_geometry w2 \<noteq> None \<and> Wall_material w2 \<noteq> None)))"
  using C4_clones_share_wall_resources [OF master_101_ok] master_101_ok by (intro conjI)

text \<open>
  C5 (deterministic wall regeneration). For a Room \<open>R\<close> whose Furniture is well formed,
  \<^verbatim>\<open>R.clone()\<close> returns a Room with exactly four walls, of dimensions
  \<open>(width, 3.5, 0.5)\<close> twice and \<open>(0.5, 3.5, depth)\<close> twice, where \<open>width\<close> and \<open>depth\<close> are
  those of \<open>R\<close>. Nothing is assumed about the walls that \<open>R\<close> holds. The mesh of each
  wall is a node allocated by the clone, scaled to the dimensions of the wall. The
  statement is then used on the Room of the sample layout with its walls taken away.
\<close>

theorem C5_room_clone_regenerates_walls:
  assumes ok: "Room_ok w R"
  shows "\<exists>R' w'. Room_clone R w = Some (R', w')
           \<and> length (room_walls R') = 4
           \<and> map wall_dimensions (room_walls R') =
               [(room_width R, 3.5, 0.5), (room_width R, 3.5, 0.5),
                (0.5, 3.5, room_depth R), (0.5, 3.5, room_depth R)]
           \<and> (\<forall>wl\<in>set (room_walls R').
                 length (objs w) \<le> wall_mesh wl \<and> wall_mesh wl < length (objs w')
               \<and> scale (obj w' (wall_mesh wl))
                   = Vector3 (wall_width wl) (wall_height wl) (wall_depth wl))"
proof -
  have fs: "\<forall>f\<in>set (room_furnitureList R).
      subtrees_ok (length (objs w)) (objs w) [furn_root f]"
    using ok by (simp add: Room_ok_def Furniture_ok_def list_all_iff)
  from Room_clone_ok [OF fs agrees_self order_refl order_refl]
  obtain R' w' where rc: "Room_clone R w = Some (R', w')" and cl: "Room_cloned w w' R R'"
    by (elim exE conjE) (rule that)
  have "length (room_walls R') = 4" using cl by (rule Room_cloned_walls)
  then show ?thesis using rc cl by (simp add: Room_cloned_def wall_ok_def)
qed

theorem C5_room_clone_regenerates_walls_witness:
  "Room_ok world_101 room_without_walls \<and> room_walls room_without_walls = []
   \<and> room_width room_without_walls = 10 \<and> room_depth room_without_walls = 8
   \<and> (\<exists>R' w'. Room_clone room_without_walls world_101 = Some (R', w')
           \<and> length (room_walls R') = 4
           \<and> map wall_dimensions (room_walls R') =
               [(room_width room_without_walls, 3.5, 0.5),
                (room_width room_without_walls, 3.5, 0.5),
                (0.5, 3.5, room_depth room_without_walls),
                (0.5, 3.5, room_depth room_without_walls)]
           \<and> (\<forall>wl\<in>set (room_walls R').
                 length (objs world_101) \<le> wall_mesh wl \<and> wall_mesh wl < length (objs w')
               \<and> scale (obj w' (wall_mesh wl))
                   = Vector3 (wall_width wl) (wall_height wl) (wall_depth wl)))"
proof -
  have ok: "Room_ok world_101 room_without_walls"
    by (simp add: run room_without_walls_def Room_ok_def Furniture_ok_def
          subtrees_ok_Nil subtrees_ok_Cons del: loop_simps cong: run_cong)
  have sz: "room_walls room_without_walls = []" "room_width room_without_walls = 10"
    "room_depth room_without_walls = 8"
    by (simp_all add: run room_without_walls_def del: loop_simps cong: run_cong)
  show ?thesis
    using C5_room_clone_regenerates_walls [OF ok] ok sz by (intro conjI)
qed

text \<open>
  C9 (master flag and identifier of a clone). For every well-formed Layout \<open>L\<close>,
  whatever the flag of its own group, \<^verbatim>\<open>L.clone()\<close> returns a Layout whose group has
  \<open>isMaster = false\<close>, and whose identifier, as a field and on its group, is that of \<open>L\<close>.
\<close>

theorem C9_clone_is_not_master:
  assumes ok: "Layout_ok w L"
  shows "\<exists>L' w'. Layout3D_clone L w = Some (L', w')
           \<and> isMaster (userData (obj w' (lay_group L'))) = Some False
           \<and> lay_id L' = lay_id L
           \<and> entityId (userData (obj w' (lay_group L'))) = lay_id L"
proof -
  from Layout3D_clone_ok [OF Layout_ok_subtrees [OF ok] agrees_self order_refl order_refl]
  obtain L' w' where cl: "Layout3D_clone L w = Some (L', w')"
    and ud: "userData (obj w' (lay_group L')) =
               \<lparr>entityId = lay_id L, ud_type = Some ''Layout3D'', ud_name = None,
                isMaster = Some False\<rparr>"
    and li: "lay_id L' = lay_id L"
    by (elim exE conjE) (rule that)
  show ?thesis using cl ud li by simp
qed

theorem C9_clone_is_not_master_witness:
  "Layout_ok world_101 master_101
   \<and> (\<exists>L' w'. Layout3D_clone master_101 world_101 = Some (L', w')
           \<and> isMaster (userData (obj w' (lay_group L'))) = Some False
           \<and> lay_id L' = lay_id master_101
           \<and> entityId (userData (obj w' (lay_group L'))) = lay_id master_101)"
  using C9_clone_is_not_master [OF master_101_ok] master_101_ok by (intro conjI)



end
